theory Spec2Isabelle
  imports Complex_Main "HOL-Library.Log_Nat"
begin

section \<open>Data model (src/types)\<close>

datatype TaskType =
    email_notification
  | image_processing
  | file_processing
  | data_export
  | api_integration
  | cleanup_tasks

text \<open>
  The six members of the union type \<open>TaskStatus\<close>. The constructors are capitalised
  because \<open>QueueStats\<close> below has fields of the same names.
\<close>

datatype TaskStatus = Waiting | Active | Completed | Failed | Delayed | Paused

text \<open>The string literal each status is in the source, which is what the status column holds.\<close>

fun status_text :: "TaskStatus \<Rightarrow> string" where
  "status_text Waiting = ''waiting''"
| "status_text Active = ''active''"
| "status_text Completed = ''completed''"
| "status_text Failed = ''failed''"
| "status_text Delayed = ''delayed''"
| "status_text Paused = ''paused''"

fun type_name :: "TaskType \<Rightarrow> string" where
  "type_name email_notification = ''email_notification''"
| "type_name image_processing = ''image_processing''"
| "type_name file_processing = ''file_processing''"
| "type_name data_export = ''data_export''"
| "type_name api_integration = ''api_integration''"
| "type_name cleanup_tasks = ''cleanup_tasks''"

text \<open>Milliseconds since the epoch, as \<open>Date.getTime()\<close>.\<close>

type_synonym timestamp = int

text \<open>
  A JSON value, as \<open>express.json()\<close> and the queue hand it to the code. A number is
  the double it was parsed to, taken finite; a string is taken to be ASCII, so that its
  \<open>length\<close> is the length of the list; an object is the list of its properties, each
  name once.
\<close>

datatype json =
    JNull
  | JBool bool
  | JNum rat
  | JStr string
  | JArr "json list"
  | JObj "(string \<times> json) list"

text \<open>
  Interface \<open>Task\<close>. Every field but type, priority and data is optional in the source.
  The payload \<open>data\<close> is typed by the six payload interfaces, but nothing checks its
  shape at run time: it is any JSON value. A result document is kept as its text.
\<close>

record Task =
  task_id :: "string option"
  task_type :: TaskType
  priority :: int
  data :: json
  status :: "TaskStatus option"
  createdAt :: "timestamp option"
  startedAt :: "timestamp option"
  completedAt :: "timestamp option"
  failedAt :: "timestamp option"
  attempts :: "int option"
  maxRetries :: "int option"
  progress :: "int option"
  result :: "string option"
  error :: "string option"

datatype BackoffType = fixed | exponential

record QueueConfig =
  name :: string
  concurrency :: int
  cfg_maxRetries :: int
  retryDelay :: int
  backoffType :: BackoffType
  removeOnComplete :: int
  removeOnFail :: int

record QueueStats =
  waiting :: nat
  active :: nat
  completed :: nat
  failed :: nat
  delayed :: nat
  paused :: nat

record TaskResult =
  taskId :: string
  success :: bool
  res_data :: "string option"
  res_error :: "string option"
  duration :: int
  res_attempts :: int

section \<open>Errors\<close>

text \<open>
  What the source throws. The first six come out of \<open>database.query\<close>: the connection
  failing, a number that does not fit a column of type INTEGER, and the constraints of the
  schema (primary key and NOT NULL of tasks.id, the CHECKs on priority and progress, the
  foreign key of task_results.task_id). \<open>BrokerError\<close> is a rejected call of the queue
  library; \<open>HandlerError\<close> is the \<open>Error\<close> a simulated handler throws;
  \<open>TypeError\<close> is thrown by reading a property of \<open>undefined\<close> or \<open>null\<close>.
\<close>

datatype exn =
    QueryFailed
  | OutOfRange
  | NotNullViolation
  | UniqueViolation
  | CheckViolation
  | ForeignKeyViolation
  | BrokerError
  | QueueNotFound TaskType
  | HandlerError string
  | TypeError

text \<open>
  \<open>error.message\<close>. The texts of the database driver, of the queue library and of the
  JavaScript engine are not in the repository; a short non-empty text stands for each.
\<close>

fun message :: "exn \<Rightarrow> string" where
  "message QueryFailed = ''query failed''"
| "message OutOfRange = ''integer out of range''"
| "message NotNullViolation = ''not-null violation''"
| "message UniqueViolation = ''unique violation''"
| "message CheckViolation = ''check violation''"
| "message ForeignKeyViolation = ''foreign key violation''"
| "message BrokerError = ''broker error''"
| "message (QueueNotFound t) = ''Queue not found for task type: '' @ type_name t"
| "message (HandlerError m) = m"
| "message TypeError = ''cannot read properties of undefined''"

section \<open>The durable store (schema and src/database/models.ts)\<close>

text \<open>A row of table \<open>tasks\<close>, with the column defaults of the schema.\<close>

record task_row =
  row_id :: string
  row_type :: TaskType
  row_priority :: int
  row_data :: json
  row_status :: TaskStatus
  created_at :: "timestamp option"
  updated_at :: "timestamp option"
  started_at :: "timestamp option"
  completed_at :: "timestamp option"
  failed_at :: "timestamp option"
  row_attempts :: int
  max_retries :: int
  row_progress :: int
  row_result :: "string option"
  row_error :: "string option"

text \<open>A row of table \<open>task_results\<close>.\<close>

record result_row =
  rr_task_id :: string
  rr_success :: bool
  rr_data :: "string option"
  rr_error :: "string option"
  rr_duration :: int
  rr_attempts :: int
  rr_created_at :: timestamp

text \<open>
  The database: the two tables, and the script of the connection. Every call of
  \<open>database.query\<close> takes the head of \<open>outages\<close>: \<open>True\<close> means that this query
  throws without any effect; an empty script means the connection works from then on.
  Each query is sent through \<open>pool.query\<close> on its own, so each is its own transaction.
\<close>

record database =
  tasks :: "task_row list"
  task_results :: "result_row list"
  outages :: "bool list"

definition next_query :: "database \<Rightarrow> bool \<times> database" where
  "next_query d =
     (case outages d of
        [] \<Rightarrow> (True, d)
      | down # rest \<Rightarrow> (\<not> down, d\<lparr>outages := rest\<rparr>))"

definition find_task :: "database \<Rightarrow> string \<Rightarrow> task_row option" where
  "find_task d i = find (\<lambda>r. row_id r = i) (tasks d)"

text \<open>
  The values of a column of type INTEGER (32 bits). A parameter outside this range makes
  the statement fail when it is bound, before any row or constraint is looked at.
\<close>

definition in_int4 :: "int \<Rightarrow> bool" where
  "in_int4 n \<longleftrightarrow> - 2147483648 \<le> n \<and> n \<le> 2147483647"

text \<open>
  \<open>TaskModel.createTask\<close>. \<open>task.status || 'waiting'\<close>, \<open>task.createdAt || new Date()\<close>
  and \<open>task.maxRetries || 3\<close>: the last one takes 3 also when maxRetries is 0, which is
  falsy.
\<close>

definition createTask :: "database \<Rightarrow> timestamp \<Rightarrow> Task \<Rightarrow> (exn + string) \<times> database" where
  "createTask d now task =
     (let (ok, d1) = next_query d in
      if \<not> ok then (Inl QueryFailed, d1)
      else if \<not> in_int4 (priority task) then (Inl OutOfRange, d1)
      else if \<not> in_int4 (case maxRetries task of None \<Rightarrow> 3 | Some m \<Rightarrow> if m = 0 then 3 else m)
        then (Inl OutOfRange, d1)
      else case task_id task of
        None \<Rightarrow> (Inl NotNullViolation, d1)
      | Some i \<Rightarrow>
          if priority task < 1 \<or> priority task > 10 then (Inl CheckViolation, d1)
          else if find_task d1 i \<noteq> None then (Inl UniqueViolation, d1)
          else
            (Inr i,
             d1\<lparr>tasks := tasks d1 @
               [\<lparr>row_id = i,
                 row_type = task_type task,
                 row_priority = priority task,
                 row_data = data task,
                 row_status = (case status task of None \<Rightarrow> Waiting | Some s \<Rightarrow> s),
                 created_at = Some (case createdAt task of None \<Rightarrow> now | Some c \<Rightarrow> c),
                 updated_at = Some now,
                 started_at = None,
                 completed_at = None,
                 failed_at = None,
                 row_attempts = 0,
                 max_retries =
                   (case maxRetries task of
                      None \<Rightarrow> 3
                    | Some m \<Rightarrow> if m = 0 then 3 else m),
                 row_progress = 0,
                 row_result = None,
                 row_error = None\<rparr>]\<rparr>))"

text \<open>
  The \<open>additionalData\<close> of \<open>updateTaskStatus\<close>: the fields of \<open>Partial<Task>\<close> the
  function reads. An absent argument is \<open>no_data\<close>.
\<close>

record additionalData =
  ad_startedAt :: "timestamp option"
  ad_completedAt :: "timestamp option"
  ad_failedAt :: "timestamp option"
  ad_attempts :: "int option"
  ad_progress :: "int option"
  ad_result :: "string option"
  ad_error :: "string option"

definition no_data :: additionalData where
  "no_data =
     \<lparr>ad_startedAt = None, ad_completedAt = None, ad_failedAt = None, ad_attempts = None,
      ad_progress = None, ad_result = None, ad_error = None\<rparr>"

text \<open>
  The SET list built by \<open>updateTaskStatus\<close>: status and updated_at always, a date when
  it is given, attempts, progress and result when not undefined, error when truthy (a
  non-empty string).
\<close>

definition set_columns :: "timestamp \<Rightarrow> TaskStatus \<Rightarrow> additionalData \<Rightarrow> task_row \<Rightarrow> task_row" where
  "set_columns now st ad r =
     r\<lparr>row_status := st,
       updated_at := Some now,
       started_at := (case ad_startedAt ad of None \<Rightarrow> started_at r | Some t \<Rightarrow> Some t),
       completed_at := (case ad_completedAt ad of None \<Rightarrow> completed_at r | Some t \<Rightarrow> Some t),
       failed_at := (case ad_failedAt ad of None \<Rightarrow> failed_at r | Some t \<Rightarrow> Some t),
       row_attempts := (case ad_attempts ad of None \<Rightarrow> row_attempts r | Some n \<Rightarrow> n),
       row_progress := (case ad_progress ad of None \<Rightarrow> row_progress r | Some p \<Rightarrow> p),
       row_result := (case ad_result ad of None \<Rightarrow> row_result r | Some j \<Rightarrow> Some j),
       row_error :=
         (case ad_error ad of
            None \<Rightarrow> row_error r
          | Some e \<Rightarrow> if e = [] then row_error r else Some e)\<rparr>"

text \<open>
  \<open>TaskModel.updateTaskStatus\<close>: one UPDATE ... WHERE id = taskId. It looks at neither
  the old status nor the number of rows it changed, and resolves to nothing. Besides the
  connection, the statement fails when attempts or progress does not fit an INTEGER, and
  on the CHECK of progress for the row it changes.
\<close>

definition updateTaskStatus ::
  "database \<Rightarrow> timestamp \<Rightarrow> string \<Rightarrow> TaskStatus \<Rightarrow> additionalData \<Rightarrow> (exn + unit) \<times> database" where
  "updateTaskStatus d now i st ad =
     (let (ok, d1) = next_query d in
      if \<not> ok then (Inl QueryFailed, d1)
      else if \<not> in_int4 (case ad_attempts ad of None \<Rightarrow> 0 | Some n \<Rightarrow> n) then (Inl OutOfRange, d1)
      else if \<not> in_int4 (case ad_progress ad of None \<Rightarrow> 0 | Some p \<Rightarrow> p) then (Inl OutOfRange, d1)
      else case find_task d1 i of
        None \<Rightarrow> (Inr (), d1)
      | Some r \<Rightarrow>
          let r' = set_columns now st ad r in
          if row_progress r' < 0 \<or> row_progress r' > 100 then (Inl CheckViolation, d1)
          else (Inr (), d1\<lparr>tasks := map (\<lambda>x. if row_id x = i then r' else x) (tasks d1)\<rparr>))"

text \<open>\<open>TaskModel.saveTaskResult\<close>: one INSERT into task_results.\<close>

definition saveTaskResult :: "database \<Rightarrow> timestamp \<Rightarrow> TaskResult \<Rightarrow> (exn + unit) \<times> database" where
  "saveTaskResult d now res =
     (let (ok, d1) = next_query d in
      if \<not> ok then (Inl QueryFailed, d1)
      else if \<not> in_int4 (duration res) \<or> \<not> in_int4 (res_attempts res) then (Inl OutOfRange, d1)
      else if find_task d1 (taskId res) = None then (Inl ForeignKeyViolation, d1)
      else
        (Inr (),
         d1\<lparr>task_results := task_results d1 @
           [\<lparr>rr_task_id = taskId res,
             rr_success = success res,
             rr_data = res_data res,
             rr_error = res_error res,
             rr_duration = duration res,
             rr_attempts = res_attempts res,
             rr_created_at = now\<rparr>]\<rparr>))"

text \<open>
  \<open>TaskModel.getMetrics\<close>: six SELECTs started together (\<open>Promise.all\<close>), so all six
  are sent and the call throws when one of them does. They are modelled as reading one
  state of the table. Counts are SQL counts; the average is \<open>AVG(EXTRACT(EPOCH FROM
  (completed_at - started_at)))\<close> over completed rows that have both dates, NULL when
  there is none, and \<open>parseFloat(...) || 0\<close> makes NULL into 0. Arithmetic is exact
  (\<open>real\<close>): the rounding of NUMERIC and of doubles is not modelled.
\<close>

record Metrics =
  totalTasks :: nat
  completedTasks :: nat
  failedTasks :: nat
  pendingTasks :: nat
  averageProcessingTime :: real
  successRate :: real

fun next_queries :: "nat \<Rightarrow> database \<Rightarrow> bool \<times> database" where
  "next_queries 0 d = (True, d)"
| "next_queries (Suc n) d =
     (let (ok, d1) = next_query d; (oks, d2) = next_queries n d1 in (ok \<and> oks, d2))"

definition timed_completed :: "task_row list \<Rightarrow> task_row list" where
  "timed_completed rows =
     filter (\<lambda>r. row_status r = Completed \<and> started_at r \<noteq> None \<and> completed_at r \<noteq> None) rows"

definition epoch_seconds :: "task_row \<Rightarrow> real" where
  "epoch_seconds r =
     (case (started_at r, completed_at r) of
        (Some s, Some c) \<Rightarrow> real_of_int (c - s) / 1000
      | _ \<Rightarrow> 0)"

definition avg_time :: "task_row list \<Rightarrow> real option" where
  "avg_time rows =
     (let xs = timed_completed rows in
      if xs = [] then None else Some (sum_list (map epoch_seconds xs) / real (length xs)))"

definition success_rate :: "task_row list \<Rightarrow> real" where
  "success_rate rows =
     (let xs = filter (\<lambda>r. row_status r = Completed \<or> row_status r = Failed) rows in
      if length xs = 0 then 0
      else real (length (filter (\<lambda>r. row_status r = Completed) xs)) * 100 / real (length xs))"

definition getMetrics :: "database \<Rightarrow> (exn + Metrics) \<times> database" where
  "getMetrics d =
     (let (ok, d1) = next_queries 6 d in
      if \<not> ok then (Inl QueryFailed, d1)
      else
        (Inr
          \<lparr>totalTasks = length (tasks d1),
           completedTasks = length (filter (\<lambda>r. row_status r = Completed) (tasks d1)),
           failedTasks = length (filter (\<lambda>r. row_status r = Failed) (tasks d1)),
           pendingTasks =
             length (filter (\<lambda>r. row_status r = Waiting \<or> row_status r = Active \<or>
               row_status r = Delayed) (tasks d1)),
           averageProcessingTime = (case avg_time (tasks d1) of None \<Rightarrow> 0 | Some a \<Rightarrow> a),
           successRate = success_rate (tasks d1)\<rparr>,
         d1))"

section \<open>The broker library, as far as the repository calls it\<close>

text \<open>
  The queue library (Bull) is not part of the repository. What follows is its interface as
  the repository uses it, and no more: a queue holds the jobs its getters return, a paused
  flag that \<open>pause\<close> sets and \<open>resume\<close> clears, and a flag telling whether its
  connection answers (every call of a queue that is not \<open>online\<close> rejects). How the
  library orders and runs jobs is not modelled: a job's \<open>attemptsMade\<close>, the number
  of attempts made before the one that runs, is an input of the handlers.
\<close>

record BackoffOptions =
  bo_type :: BackoffType
  bo_delay :: int

record JobOptions =
  jo_priority :: int
  jo_attempts :: int
  jo_backoff :: BackoffOptions
  jo_removeOnComplete :: int
  jo_removeOnFail :: int

record Job =
  job_data :: Task
  opts :: JobOptions
  attemptsMade :: nat

record Queue =
  q_waiting :: "Job list"
  q_active :: "Job list"
  q_completed :: "Job list"
  q_failed :: "Job list"
  q_delayed :: "Job list"
  q_paused :: bool
  online :: bool

definition new_queue :: Queue where
  "new_queue =
     \<lparr>q_waiting = [], q_active = [], q_completed = [], q_failed = [], q_delayed = [],
      q_paused = False, online = True\<rparr>"

definition queue_add :: "Queue \<Rightarrow> Task \<Rightarrow> JobOptions \<Rightarrow> (exn + Job) \<times> Queue" where
  "queue_add q t os =
     (if \<not> online q then (Inl BrokerError, q)
      else
        (let job = \<lparr>job_data = t, opts = os, attemptsMade = 0\<rparr>
         in (Inr job, q\<lparr>q_waiting := q_waiting q @ [job]\<rparr>)))"

definition queue_get :: "(Queue \<Rightarrow> Job list) \<Rightarrow> Queue \<Rightarrow> exn + Job list" where
  "queue_get sel q = (if online q then Inr (sel q) else Inl BrokerError)"

definition queue_pause :: "Queue \<Rightarrow> (exn + unit) \<times> Queue" where
  "queue_pause q = (if online q then (Inr (), q\<lparr>q_paused := True\<rparr>) else (Inl BrokerError, q))"

definition queue_resume :: "Queue \<Rightarrow> (exn + unit) \<times> Queue" where
  "queue_resume q = (if online q then (Inr (), q\<lparr>q_paused := False\<rparr>) else (Inl BrokerError, q))"

text \<open>
  The options \<open>attempts\<close> and \<open>backoff\<close> that \<open>addTask\<close> sets are the library's:
  \<open>attempts\<close> is the total number of attempts, so a job whose attempt has failed is
  run again when, that attempt counted, fewer than \<open>attempts\<close> have been made; the job
  then waits for the delay of its backoff strategy. The strategy \<open>fixed\<close> is the
  configured delay before every retry. The arithmetic of the strategy \<open>exponential\<close>
  is inside the library and is not modelled (\<open>None\<close>).
\<close>

definition retried :: "Job \<Rightarrow> bool" where
  "retried job \<longleftrightarrow> int (attemptsMade job) + 1 < jo_attempts (opts job)"


section \<open>Configuration (src/config/index.ts)\<close>

text \<open>
  \<open>config.queues\<close> when no environment variable is set. The numbers can be overridden
  from the environment, so the operations below take the table as a parameter.
\<close>

fun default_queues :: "TaskType \<Rightarrow> QueueConfig" where
  "default_queues email_notification =
     \<lparr>name = ''email_notification'', concurrency = 3, cfg_maxRetries = 3, retryDelay = 5000,
      backoffType = exponential, removeOnComplete = 100, removeOnFail = 50\<rparr>"
| "default_queues image_processing =
     \<lparr>name = ''image_processing'', concurrency = 2, cfg_maxRetries = 2, retryDelay = 10000,
      backoffType = exponential, removeOnComplete = 50, removeOnFail = 25\<rparr>"
| "default_queues file_processing =
     \<lparr>name = ''file_processing'', concurrency = 3, cfg_maxRetries = 3, retryDelay = 5000,
      backoffType = fixed, removeOnComplete = 100, removeOnFail = 50\<rparr>"
| "default_queues data_export =
     \<lparr>name = ''data_export'', concurrency = 1, cfg_maxRetries = 2, retryDelay = 15000,
      backoffType = exponential, removeOnComplete = 25, removeOnFail = 25\<rparr>"
| "default_queues api_integration =
     \<lparr>name = ''api_integration'', concurrency = 5, cfg_maxRetries = 5, retryDelay = 3000,
      backoffType = exponential, removeOnComplete = 200, removeOnFail = 100\<rparr>"
| "default_queues cleanup_tasks =
     \<lparr>name = ''cleanup_tasks'', concurrency = 1, cfg_maxRetries = 1, retryDelay = 60000,
      backoffType = fixed, removeOnComplete = 10, removeOnFail = 10\<rparr>"

definition task_types :: "TaskType list" where
  "task_types =
     [email_notification, image_processing, file_processing, data_export, api_integration,
      cleanup_tasks]"

section \<open>QueueManager\<close>

text \<open>
  The state of the service: the database and the manager's \<open>Map<TaskType, Queue>\<close>, an
  association list in insertion order.
\<close>

record system =
  sys_db :: database
  sys_queues :: "(TaskType \<times> Queue) list"

definition initializeQueues :: "(TaskType \<times> Queue) list" where
  "initializeQueues = map (\<lambda>t. (t, new_queue)) task_types"

definition put_queue :: "TaskType \<Rightarrow> Queue \<Rightarrow> (TaskType \<times> Queue) list \<Rightarrow> (TaskType \<times> Queue) list" where
  "put_queue t q qs = map (\<lambda>(k, v). if k = t then (k, q) else (k, v)) qs"

text \<open>The \<open>jobOptions\<close> that \<open>addTask\<close> builds.\<close>

definition jobOptions :: "QueueConfig \<Rightarrow> Task \<Rightarrow> JobOptions" where
  "jobOptions queueConfig task =
     \<lparr>jo_priority = priority task,
      jo_attempts = cfg_maxRetries queueConfig,
      jo_backoff = \<lparr>bo_type = backoffType queueConfig, bo_delay = retryDelay queueConfig\<rparr>,
      jo_removeOnComplete = removeOnComplete queueConfig,
      jo_removeOnFail = removeOnFail queueConfig\<rparr>"

text \<open>
  \<open>QueueManager.addTask\<close>. \<open>uuid\<close> is what \<open>uuidv4()\<close> would return; it is used
  when the task has no id (or an empty one). The row is inserted before the job is queued,
  and stays when queueing fails.
\<close>

definition addTask ::
  "(TaskType \<Rightarrow> QueueConfig) \<Rightarrow> system \<Rightarrow> Task \<Rightarrow> string \<Rightarrow> timestamp \<Rightarrow> (exn + string) \<times> system" where
  "addTask cfg s task uuid now =
     (let tid = (case task_id task of None \<Rightarrow> uuid | Some i \<Rightarrow> if i = [] then uuid else i);
          taskWithId = task\<lparr>task_id := Some tid\<rparr>
      in case createTask (sys_db s) now taskWithId of
           (Inl e, d1) \<Rightarrow> (Inl e, s\<lparr>sys_db := d1\<rparr>)
         | (Inr _, d1) \<Rightarrow>
             (case map_of (sys_queues s) (task_type task) of
                None \<Rightarrow> (Inl (QueueNotFound (task_type task)), s\<lparr>sys_db := d1\<rparr>)
              | Some q \<Rightarrow>
                  (case queue_add q taskWithId (jobOptions (cfg (task_type task)) task) of
                     (Inl e, q1) \<Rightarrow> (Inl e, s\<lparr>sys_db := d1\<rparr>)
                   | (Inr job, q1) \<Rightarrow>
                       (Inr tid,
                        s\<lparr>sys_db := d1,
                          sys_queues := put_queue (task_type task) q1 (sys_queues s)\<rparr>))))"

text \<open>
  \<open>QueueManager.getQueueStats\<close>: the lengths of the five lists the getters return, and
  the literal 0 for \<open>paused\<close>.
\<close>

definition getQueueStats :: "(TaskType \<times> Queue) list \<Rightarrow> TaskType \<Rightarrow> exn + QueueStats" where
  "getQueueStats qs taskType =
     (case map_of qs taskType of
        None \<Rightarrow> Inl (QueueNotFound taskType)
      | Some queue \<Rightarrow>
          (case (queue_get q_waiting queue, queue_get q_active queue, queue_get q_completed queue,
                 queue_get q_failed queue, queue_get q_delayed queue) of
             (Inr w, Inr a, Inr c, Inr f, Inr dl) \<Rightarrow>
               Inr \<lparr>waiting = length w, active = length a, completed = length c,
                    failed = length f, delayed = length dl, paused = 0\<rparr>
           | _ \<Rightarrow> Inl BrokerError))"

definition zero_stats :: QueueStats where
  "zero_stats = \<lparr>waiting = 0, active = 0, completed = 0, failed = 0, delayed = 0, paused = 0\<rparr>"

text \<open>
  \<open>QueueManager.getAllQueueStats\<close>: one entry per key of the map, in its order (the
  keys of a \<open>Map\<close> are distinct).
\<close>

definition getAllQueueStats :: "(TaskType \<times> Queue) list \<Rightarrow> (TaskType \<times> QueueStats) list" where
  "getAllQueueStats qs =
     map (\<lambda>taskType.
            (taskType,
             case getQueueStats qs taskType of
               Inr stats \<Rightarrow> stats
             | Inl e \<Rightarrow> zero_stats))
         (map fst qs)"

definition pauseQueue :: "(TaskType \<times> Queue) list \<Rightarrow> TaskType \<Rightarrow> (exn + unit) \<times> (TaskType \<times> Queue) list" where
  "pauseQueue qs taskType =
     (case map_of qs taskType of
        None \<Rightarrow> (Inl (QueueNotFound taskType), qs)
      | Some queue \<Rightarrow>
          (case queue_pause queue of
             (Inl e, q1) \<Rightarrow> (Inl e, qs)
           | (Inr u, q1) \<Rightarrow> (Inr (), put_queue taskType q1 qs)))"

definition resumeQueue :: "(TaskType \<times> Queue) list \<Rightarrow> TaskType \<Rightarrow> (exn + unit) \<times> (TaskType \<times> Queue) list" where
  "resumeQueue qs taskType =
     (case map_of qs taskType of
        None \<Rightarrow> (Inl (QueueNotFound taskType), qs)
      | Some queue \<Rightarrow>
          (case queue_resume queue of
             (Inl e, q1) \<Rightarrow> (Inl e, qs)
           | (Inr u, q1) \<Rightarrow> (Inr (), put_queue taskType q1 qs)))"

section \<open>JavaScript values\<close>

text \<open>
  Reading a property: \<open>x.f\<close> throws a \<open>TypeError\<close> when \<open>x\<close> is \<open>undefined\<close>
  (\<open>None\<close>) or \<open>null\<close>, and is \<open>undefined\<close> when \<open>x\<close> has no such property. The
  handlers read data properties by the names of the payload interfaces and \<open>length\<close>;
  none of these names is inherited from a prototype but \<open>length\<close>, which arrays and
  strings have.
\<close>

fun property :: "json option \<Rightarrow> string \<Rightarrow> exn + json option" where
  "property None f = Inl TypeError"
| "property (Some JNull) f = Inl TypeError"
| "property (Some (JObj kvs)) f = Inr (map_of kvs f)"
| "property (Some (JArr xs)) f =
     Inr (if f = ''length'' then Some (JNum (of_nat (length xs))) else None)"
| "property (Some (JStr s)) f =
     Inr (if f = ''length'' then Some (JNum (of_nat (length s))) else None)"
| "property (Some (JBool b)) f = Inr None"
| "property (Some (JNum r)) f = Inr None"

text \<open>Whether an expression that is evaluated for its value only has thrown.\<close>

definition thrown :: "exn + 'a \<Rightarrow> exn + unit" where
  "thrown x = (case x of Inl e \<Rightarrow> Inl e | Inr v \<Rightarrow> Inr ())"

text \<open>
  Arithmetic on doubles. \<open>binary64 x\<close> is the double nearest to a positive rational
  \<open>x\<close> (round to nearest, ties to even, 53 bits), for values in the normal range:
  overflow and underflow are not modelled. \<open>exponent x\<close> is the integer part of the
  binary logarithm of \<open>x\<close>, and \<open>js_round\<close> is \<open>Math.round\<close>, which rounds a
  tie upwards.
\<close>

definition pow2 :: "int \<Rightarrow> rat" where
  "pow2 k = (if 0 \<le> k then 2 ^ nat k else 1 / 2 ^ nat (- k))"

definition round_half_even :: "rat \<Rightarrow> int" where
  "round_half_even x =
     (let f = \<lfloor>x\<rfloor>; r = x - of_int f
      in if r < 1 / 2 then f else if 1 / 2 < r then f + 1 else if even f then f else f + 1)"

definition exponent :: "rat \<Rightarrow> int" where
  "exponent x =
     (let (a, b) = quotient_of x; k = bitlen a - bitlen b
      in if pow2 k \<le> x then k else k - 1)"

definition binary64 :: "rat \<Rightarrow> rat" where
  "binary64 x =
     (if x \<le> 0 then 0
      else let u = pow2 (exponent x - 52) in of_int (round_half_even (x / u)) * u)"

definition js_round :: "rat \<Rightarrow> int" where
  "js_round x = \<lfloor>x + 1 / 2\<rfloor>"

section \<open>TaskProcessor\<close>

text \<open>
  The progress reports of \<open>simulateImageProcessing\<close> and \<open>simulateDataExport\<close>: one
  \<open>updateTaskStatus(taskId, 'active', {progress})\<close> per step; the first that throws ends
  the loop.
\<close>

fun report_progress :: "database \<Rightarrow> timestamp \<Rightarrow> string \<Rightarrow> int list \<Rightarrow> (exn + unit) \<times> database" where
  "report_progress d now i [] = (Inr (), d)"
| "report_progress d now i (p # ps) =
     (case updateTaskStatus d now i Active (no_data\<lparr>ad_progress := Some p\<rparr>) of
        (Inl e, d1) \<Rightarrow> (Inl e, d1)
      | (Inr u, d1) \<Rightarrow> report_progress d1 now i ps)"

text \<open>
  The values of the loop \<open>for (let i = 0; i < n; i++)\<close> with
  \<open>progress = Math.round(((i + 1) / n) * 100)\<close>: the division and the multiplication
  are each rounded to a double. \<open>n\<close> is a number, not always a whole one.
\<close>

definition progress_steps :: "rat \<Rightarrow> int list" where
  "progress_steps n =
     map (\<lambda>i. js_round (binary64 (binary64 (of_nat (i + 1) / n) * 100))) [0..<nat \<lceil>n\<rceil>]"

text \<open>
  What a \<open>simulate...\<close> call does to the store and how it ends: the progress it reports
  first, then either the \<open>Error\<close> it throws (\<open>Some\<close> of its message) or nothing. The
  random delay and the random choice to fail are inputs.
\<close>

definition simulate ::
  "database \<Rightarrow> timestamp \<Rightarrow> string \<Rightarrow> int list \<Rightarrow> string option \<Rightarrow> (exn + unit) \<times> database" where
  "simulate d now i steps fails =
     (case report_progress d now i steps of
        (Inl e, d1) \<Rightarrow> (Inl e, d1)
      | (Inr u, d1) \<Rightarrow>
          (case fails of
             Some m \<Rightarrow> (Inl (HandlerError m), d1)
           | None \<Rightarrow> (Inr (), d1)))"

text \<open>\<open>task.id!\<close>: every job is made by \<open>addTask\<close>, which gives its task an id.\<close>

definition id_of :: "Task \<Rightarrow> string" where
  "id_of t = (case task_id t of Some i \<Rightarrow> i | None \<Rightarrow> [])"

text \<open>
  The \<open>catch\<close> block of the six handlers: the status update to \<open>'failed'\<close>, then the
  result row, then the error is thrown again. Each of the two statements is awaited on its
  own; when one throws, that error leaves the handler instead.
\<close>

definition on_error :: "database \<Rightarrow> timestamp \<Rightarrow> timestamp \<Rightarrow> Job \<Rightarrow> exn \<Rightarrow> (exn + TaskResult) \<times> database" where
  "on_error d t0 t1 job e =
     (let errorResult =
            \<lparr>taskId = id_of (job_data job), success = False, res_data = None,
             res_error = Some (message e), duration = t1 - t0,
             res_attempts = int (attemptsMade job) + 1\<rparr>
      in case updateTaskStatus d t1 (id_of (job_data job)) Failed
                (no_data\<lparr>ad_failedAt := Some t1, ad_error := res_error errorResult\<rparr>) of
           (Inl e1, d1) \<Rightarrow> (Inl e1, d1)
         | (Inr u, d1) \<Rightarrow>
             (case saveTaskResult d1 t1 errorResult of
                (Inl e2, d2) \<Rightarrow> (Inl e2, d2)
              | (Inr v, d2) \<Rightarrow> (Inl e, d2)))"

text \<open>
  The end of the \<open>try\<close> block: the status update to \<open>'completed'\<close>, then the result
  row. An error of either goes to the \<open>catch\<close> block.
\<close>

definition on_success :: "database \<Rightarrow> timestamp \<Rightarrow> timestamp \<Rightarrow> Job \<Rightarrow> string \<Rightarrow> (exn + TaskResult) \<times> database" where
  "on_success d t0 t1 job out =
     (let result =
            \<lparr>taskId = id_of (job_data job), success = True, res_data = Some out,
             res_error = None, duration = t1 - t0,
             res_attempts = int (attemptsMade job) + 1\<rparr>
      in case updateTaskStatus d t1 (id_of (job_data job)) Completed
                (no_data\<lparr>ad_completedAt := Some t1, ad_result := res_data result\<rparr>) of
           (Inl e1, d1) \<Rightarrow> on_error d1 t0 t1 job e1
         | (Inr u, d1) \<Rightarrow>
             (case saveTaskResult d1 t1 result of
                (Inl e2, d2) \<Rightarrow> on_error d2 t0 t1 job e2
              | (Inr v, d2) \<Rightarrow> (Inr result, d2)))"

text \<open>
  The body the six \<open>process...\<close> methods share: the update to \<open>'active'\<close>, the reads
  of the payload for the log line (\<open>before\<close>), the simulated work, the reads of the
  payload for the result (\<open>after\<close>), the update to \<open>'completed'\<close> and the result row;
  whatever throws on the way goes to the \<open>catch\<close> block. \<open>t0\<close> is the time the
  handler starts and \<open>t1\<close> the time it ends; \<open>steps\<close> and \<open>fails\<close> describe the
  simulated work; \<open>out\<close> is the JSON text of the result data, which holds random
  numbers and the time.
\<close>

definition process ::
  "database \<Rightarrow> timestamp \<Rightarrow> timestamp \<Rightarrow> Job \<Rightarrow> exn + unit \<Rightarrow> int list \<Rightarrow> string option \<Rightarrow>
   exn + unit \<Rightarrow> string \<Rightarrow> (exn + TaskResult) \<times> database" where
  "process d t0 t1 job before steps fails after out =
     (case updateTaskStatus d t0 (id_of (job_data job)) Active
             (no_data\<lparr>ad_startedAt := Some t0, ad_attempts := Some (int (attemptsMade job) + 1)\<rparr>) of
        (Inl e, d1) \<Rightarrow> on_error d1 t0 t1 job e
      | (Inr u, d1) \<Rightarrow>
          (case before of
             Inl e \<Rightarrow> on_error d1 t0 t1 job e
           | Inr u' \<Rightarrow>
               (case simulate d1 t0 (id_of (job_data job)) steps fails of
                  (Inl e, d2) \<Rightarrow> on_error d2 t0 t1 job e
                | (Inr v, d2) \<Rightarrow>
                    (case after of
                       Inl e \<Rightarrow> on_error d2 t0 t1 job e
                     | Inr v' \<Rightarrow> on_success d2 t0 t1 job out))))"

text \<open>
  \<open>processEmailNotification\<close>: the log line reads \<open>data.to\<close> and \<open>data.subject\<close>,
  the result reads \<open>data.to.length\<close> and \<open>data.template\<close>.
\<close>

definition processEmailNotification ::
  "database \<Rightarrow> timestamp \<Rightarrow> timestamp \<Rightarrow> Job \<Rightarrow> string option \<Rightarrow> string \<Rightarrow> (exn + TaskResult) \<times> database" where
  "processEmailNotification d t0 t1 job fails out =
     process d t0 t1 job
       (thrown (property (Some (data (job_data job))) ''to''))
       [] fails
       (case property (Some (data (job_data job))) ''to'' of
          Inl e \<Rightarrow> Inl e
        | Inr recipients \<Rightarrow> thrown (property recipients ''length''))
       out"

text \<open>
  The number of operations of an image task, \<open>data.operations.length\<close>, as the loop of
  \<open>simulateImageProcessing\<close> compares and divides with it: \<open>None\<close> is \<open>NaN\<close>.
  Reading it throws when \<open>data.operations\<close> is \<open>undefined\<close> or \<open>null\<close>. It is the
  length of an array or of a string; of an object it is whatever the property
  \<open>length\<close> holds, converted to a number. The conversion of a string, an array or an
  object is JavaScript's and is not modelled: \<open>to_number\<close> stands for it (it can throw,
  and give \<open>NaN\<close>; a conversion to \<open>Infinity\<close>, with which the loop does not end, is
  outside the model).
\<close>

definition operations_length :: "(json \<Rightarrow> exn + rat option) \<Rightarrow> json \<Rightarrow> exn + rat option" where
  "operations_length to_number dat =
     (case property (Some dat) ''operations'' of
        Inl e \<Rightarrow> Inl e
      | Inr operations \<Rightarrow>
          (case property operations ''length'' of
             Inl e \<Rightarrow> Inl e
           | Inr None \<Rightarrow> Inr None
           | Inr (Some JNull) \<Rightarrow> Inr (Some 0)
           | Inr (Some (JBool b)) \<Rightarrow> Inr (Some (if b then 1 else 0))
           | Inr (Some (JNum r)) \<Rightarrow> Inr (Some r)
           | Inr (Some j) \<Rightarrow> to_number j))"

text \<open>
  \<open>processImageProcessing\<close>: the log line reads \<open>data.operations.length\<close>, the loop
  reports one step per operation, and the result reads the same properties again.
\<close>

definition processImageProcessing ::
  "(json \<Rightarrow> exn + rat option) \<Rightarrow> database \<Rightarrow> timestamp \<Rightarrow> timestamp \<Rightarrow> Job \<Rightarrow> string option \<Rightarrow> string \<Rightarrow>
   (exn + TaskResult) \<times> database" where
  "processImageProcessing to_number d t0 t1 job fails out =
     (case operations_length to_number (data (job_data job)) of
        Inl e \<Rightarrow> process d t0 t1 job (Inl e) [] fails (Inr ()) out
      | Inr None \<Rightarrow> process d t0 t1 job (Inr ()) [] fails (Inr ()) out
      | Inr (Some n) \<Rightarrow> process d t0 t1 job (Inr ()) (progress_steps n) fails (Inr ()) out)"


text \<open>
  \<open>processDataExport\<close>, \<open>processApiIntegration\<close> and \<open>processCleanupTasks\<close> read
  properties of \<open>data\<close> only; the data export reports five steps.
\<close>

definition processDataExport ::
  "database \<Rightarrow> timestamp \<Rightarrow> timestamp \<Rightarrow> Job \<Rightarrow> string option \<Rightarrow> string \<Rightarrow> (exn + TaskResult) \<times> database" where
  "processDataExport d t0 t1 job fails out =
     process d t0 t1 job
       (thrown (property (Some (data (job_data job))) ''format''))
       (progress_steps 5) fails (Inr ()) out"

definition processApiIntegration ::
  "database \<Rightarrow> timestamp \<Rightarrow> timestamp \<Rightarrow> Job \<Rightarrow> string option \<Rightarrow> string \<Rightarrow> (exn + TaskResult) \<times> database" where
  "processApiIntegration d t0 t1 job fails out =
     process d t0 t1 job
       (thrown (property (Some (data (job_data job))) ''endpoint''))
       [] fails (Inr ()) out"

definition processCleanupTasks ::
  "database \<Rightarrow> timestamp \<Rightarrow> timestamp \<Rightarrow> Job \<Rightarrow> string option \<Rightarrow> string \<Rightarrow> (exn + TaskResult) \<times> database" where
  "processCleanupTasks d t0 t1 job fails out =
     process d t0 t1 job
       (thrown (property (Some (data (job_data job))) ''type''))
       [] fails (Inr ()) out"

section \<open>HTTP routes (src/api/routes.ts) and the monitor\<close>

text \<open>
  A JavaScript number as far as division needs it: a finite value, or what a division by
  zero gives. Rounding is not modelled.
\<close>

datatype js_number = Finite real | PosInfinity | NegInfinity | NaN


text \<open>
  The body of \<open>POST /tasks\<close>. \<open>type\<close> is \<open>None\<close> when absent. \<open>data\<close> is
  \<open>None\<close> when absent or falsy (\<open>null\<close>, \<open>false\<close>, 0, the empty string), which
  the handler does not tell apart; otherwise it is the document. \<open>priority\<close> is a
  number when given.
\<close>

record task_request =
  req_type :: "string option"
  req_priority :: "int option"
  req_data :: "json option"

text \<open>
  The snapshot \<open>GET /stats/system\<close> answers with: the metrics of the store, the uptime in
  seconds, the throughput and the queue statistics. The memory and CPU figures of the
  runtime are left out.
\<close>

record SystemSnapshot =
  ss_metrics :: Metrics
  ss_uptime :: real
  ss_throughput :: js_number
  ss_queueStats :: "(TaskType \<times> QueueStats) list"

datatype reply =
    ErrorReply string
  | TaskCreated string
  | QueueStatsReply "(TaskType \<times> QueueStats) list"
  | SystemReply SystemSnapshot

record response =
  status_code :: nat
  body :: reply

definition parse_type :: "string \<Rightarrow> TaskType option" where
  "parse_type s = find (\<lambda>t. type_name t = s) task_types"

text \<open>
  The handler of \<open>POST /tasks\<close>. \<open>uuid\<close> is the result of its \<open>uuidv4()\<close>, \<open>uuid2\<close>
  the one \<open>addTask\<close> would draw.
\<close>

definition post_tasks ::
  "(TaskType \<Rightarrow> QueueConfig) \<Rightarrow> system \<Rightarrow> string \<Rightarrow> string \<Rightarrow> timestamp \<Rightarrow> task_request \<Rightarrow> response \<times> system" where
  "post_tasks cfg s uuid uuid2 now req =
     (let prio = (case req_priority req of None \<Rightarrow> 5 | Some p \<Rightarrow> p);
          missing = (\<lparr>status_code = 400,
                      body = ErrorReply ''Missing required fields: type and data''\<rparr>, s)
      in case req_type req of
           None \<Rightarrow> missing
         | Some ty \<Rightarrow>
             if ty = [] then missing
             else (case req_data req of
               None \<Rightarrow> missing
             | Some dat \<Rightarrow>
                 (case parse_type ty of
                    None \<Rightarrow> (\<lparr>status_code = 400, body = ErrorReply ''Invalid task type''\<rparr>, s)
                  | Some t \<Rightarrow>
                      if prio < 1 \<or> prio > 10 then
                        (\<lparr>status_code = 400,
                          body = ErrorReply ''Priority must be between 1 and 10''\<rparr>, s)
                      else
                        (case addTask cfg s
                                \<lparr>task_id = Some uuid, task_type = t, priority = prio, data = dat,
                                 status = Some Waiting, createdAt = Some now, startedAt = None,
                                 completedAt = None, failedAt = None, attempts = None,
                                 maxRetries = None, progress = None, result = None,
                                 error = None\<rparr>
                                uuid2 now of
                           (Inl e, s1) \<Rightarrow>
                             (\<lparr>status_code = 500, body = ErrorReply ''Internal server error''\<rparr>, s1)
                         | (Inr tid, s1) \<Rightarrow>
                             (\<lparr>status_code = 201, body = TaskCreated tid\<rparr>, s1)))))"

text \<open>The handler of \<open>GET /stats/queues\<close>.\<close>

definition get_stats_queues :: "system \<Rightarrow> response" where
  "get_stats_queues s =
     \<lparr>status_code = 200, body = QueueStatsReply (getAllQueueStats (sys_queues s))\<rparr>"



section \<open>Observations and notions of the specification\<close>

text \<open>The number of stored jobs in a status.\<close>

definition count_status :: "TaskStatus \<Rightarrow> task_row list \<Rightarrow> nat" where
  "count_status st rows = length (filter (\<lambda>r. row_status r = st) rows)"

text \<open>\<open>completed_at - started_at\<close> in seconds, for a row that has both.\<close>

definition processing_seconds :: "task_row \<Rightarrow> real" where
  "processing_seconds r = real_of_int (the (completed_at r) - the (started_at r)) / 1000"

text \<open>What is stored for a task id: the priority and the status of its row.\<close>

definition stored :: "system \<Rightarrow> string \<Rightarrow> (int \<times> TaskStatus) option" where
  "stored s i = map_option (\<lambda>r. (row_priority r, row_status r)) (find_task (sys_db s) i)"

text \<open>What waits in a queue: the task id and the priority option of each waiting job.\<close>

definition queued :: "Queue \<Rightarrow> (string option \<times> int) list" where
  "queued q = map (\<lambda>j. (task_id (job_data j), jo_priority (opts j))) (q_waiting q)"




text \<open>What the handlers leave alone in a row, and the CHECK the row satisfies.\<close>

definition kept :: "task_row \<Rightarrow> task_row \<Rightarrow> bool" where
  "kept r r' \<longleftrightarrow>
     row_attempts r' = row_attempts r \<and> max_retries r' = max_retries r
     \<and> 0 \<le> row_progress r' \<and> row_progress r' \<le> 100"

text \<open>The attempt bookkeeping of a stored task: status text, attempts, max_retries.\<close>

definition attempt_record :: "database \<Rightarrow> string \<Rightarrow> (string \<times> int \<times> int) option" where
  "attempt_record d i =
     map_option (\<lambda>r. (status_text (row_status r), row_attempts r, max_retries r)) (find_task d i)"

text \<open>
  Invariant 3 of the specification on such a record: attempts is at most
  \<open>max_retries + 1\<close>, and when it is equal and the last attempt failed, the status is
  \<open>dead\<close>.
\<close>

definition attempts_invariant :: "bool \<Rightarrow> string \<times> int \<times> int \<Rightarrow> bool" where
  "attempts_invariant last_failed rec =
     (case rec of
        (st, n, m) \<Rightarrow> n \<le> m + 1 \<and> (n = m + 1 \<and> last_failed \<longrightarrow> st = ''dead''))"

text \<open>
  Invariant 1 of the specification, on the statuses the code has: waiting to active;
  active to completed, delayed or failed; delayed to waiting; failed to waiting; any
  status but completed to paused; paused to waiting.
\<close>

definition allowed_transition :: "TaskStatus \<Rightarrow> TaskStatus \<Rightarrow> bool" where
  "allowed_transition a b \<longleftrightarrow>
     List.member
       [(Waiting, Active), (Active, Completed), (Active, Delayed), (Active, Failed),
        (Delayed, Waiting), (Failed, Waiting), (Waiting, Paused), (Active, Paused),
        (Failed, Paused), (Delayed, Paused), (Paused, Waiting)]
       (a, b)"

section \<open>Example states\<close>

text \<open>The manager's queues after start-up, with the connection of the email queue down.\<close>

definition offline_email :: "(TaskType \<times> Queue) list" where
  "offline_email = put_queue email_notification (new_queue\<lparr>online := False\<rparr>) initializeQueues"

definition empty_db :: database where
  "empty_db = \<lparr>tasks = [], task_results = [], outages = []\<rparr>"

text \<open>The service after start-up: an empty database and the six queues.\<close>

definition fresh_system :: system where
  "fresh_system = \<lparr>sys_db = empty_db, sys_queues = initializeQueues\<rparr>"

text \<open>The queues after \<open>pauseQueue\<close> of the cleanup queue.\<close>

definition paused_cleanup :: "(TaskType \<times> Queue) list" where
  "paused_cleanup = put_queue cleanup_tasks (new_queue\<lparr>q_paused := True\<rparr>) initializeQueues"

text \<open>Payloads of the shape of the payload interfaces.\<close>

definition email_data :: json where
  "email_data =
     JObj [(''to'', JArr [JStr ''ana@example.com'']), (''subject'', JStr ''Welcome''),
           (''body'', JStr ''Hello'')]"

definition api_data :: json where
  "api_data = JObj [(''endpoint'', JStr ''https://api.example.com/users''), (''method'', JStr ''GET'')]"


text \<open>A request for an email task with the given priority.\<close>

definition req_of :: "int option \<Rightarrow> task_request" where
  "req_of p = \<lparr>req_type = Some ''email_notification'', req_priority = p, req_data = Some email_data\<rparr>"

definition example_row :: "string \<Rightarrow> TaskStatus \<Rightarrow> timestamp option \<Rightarrow> timestamp option \<Rightarrow> task_row" where
  "example_row i st s c =
     \<lparr>row_id = i, row_type = email_notification, row_priority = 5, row_data = email_data,
      row_status = st, created_at = Some 0, updated_at = Some 0, started_at = s,
      completed_at = c, failed_at = None, row_attempts = 1, max_retries = 3,
      row_progress = 0, row_result = None, row_error = None\<rparr>"

text \<open>Two completed tasks (3 s and 2 s), one failed, one waiting, one active.\<close>

definition metrics_db :: database where
  "metrics_db =
     \<lparr>tasks =
        [example_row ''a'' Completed (Some 1000) (Some 4000),
         example_row ''b'' Completed (Some 2000) (Some 4000),
         example_row ''c'' Failed (Some 2000) None,
         example_row ''d'' Waiting None None,
         example_row ''e'' Active (Some 5000) None],
      task_results = [], outages = []\<rparr>"






text \<open>
  A task for the API queue submitted through \<open>POST /tasks\<close>, the job that is queued for
  it, and the database after its fourth and after its fifth attempt have failed.
\<close>

definition api_request :: task_request where
  "api_request = \<lparr>req_type = Some ''api_integration'', req_priority = None, req_data = Some api_data\<rparr>"

definition api_system :: system where
  "api_system = snd (post_tasks default_queues fresh_system ''t1'' ''t2'' 1000 api_request)"

definition api_job :: Job where
  "api_job =
     \<lparr>job_data =
        \<lparr>task_id = Some ''t1'', task_type = api_integration, priority = 5, data = api_data,
         status = Some Waiting, createdAt = Some 1000, startedAt = None, completedAt = None,
         failedAt = None, attempts = None, maxRetries = None, progress = None, result = None,
         error = None\<rparr>,
      opts = \<lparr>jo_priority = 5, jo_attempts = 5,
              jo_backoff = \<lparr>bo_type = exponential, bo_delay = 3000\<rparr>,
              jo_removeOnComplete = 200, jo_removeOnFail = 100\<rparr>,
      attemptsMade = 0\<rparr>"

definition api_after4 :: database where
  "api_after4 =
     snd (processApiIntegration (sys_db api_system) 2000 3000 (api_job\<lparr>attemptsMade := 3\<rparr>)
            (Some ''API call failed'') ''{}'')"

definition api_after5 :: database where
  "api_after5 =
     snd (processApiIntegration api_after4 4000 5000 (api_job\<lparr>attemptsMade := 4\<rparr>)
            (Some ''API call failed'') ''{}'')"

text \<open>An email task with the given id and max_retries, and the job the queue holds for it.\<close>

definition email_task :: "string \<Rightarrow> int option \<Rightarrow> Task" where
  "email_task i retries =
     \<lparr>task_id = Some i, task_type = email_notification, priority = 5, data = email_data,
      status = Some Waiting, createdAt = Some 0, startedAt = None, completedAt = None,
      failedAt = None, attempts = None, maxRetries = retries, progress = None, result = None,
      error = None\<rparr>"

definition job_for :: "string \<Rightarrow> Job" where
  "job_for i =
     \<lparr>job_data = email_task i None,
      opts = jobOptions (default_queues email_notification) (email_task i None),
      attemptsMade = 0\<rparr>"

text \<open>
  The service after \<open>addTask\<close> of an email task whose \<open>maxRetries\<close> is 0, and the job
  that is queued for it.
\<close>

definition zero_retry_system :: system where
  "zero_retry_system = snd (addTask default_queues fresh_system (email_task ''z1'' (Some 0)) ''u'' 1000)"

definition zero_retry_job :: Job where
  "zero_retry_job =
     \<lparr>job_data = email_task ''z1'' (Some 0),
      opts = jobOptions (default_queues email_notification) (email_task ''z1'' (Some 0)),
      attemptsMade = 0\<rparr>"

section \<open>Properties\<close>

subsection \<open>Aggregate queue statistics\<close>

lemma map_of_tabulate:
  "map_of (map (\<lambda>k. (k, f k)) ks) t = (if t \<in> set ks then Some (f t) else None)"
  by (induction ks) auto

lemma getAllQueueStats_keys: "map fst (getAllQueueStats qs) = map fst qs"
  by (simp add: getAllQueueStats_def comp_def)

lemma getAllQueueStats_entry:
  "map_of (getAllQueueStats qs) t =
     (if t \<in> fst ` set qs
      then Some (case getQueueStats qs t of Inr stats \<Rightarrow> stats | Inl e \<Rightarrow> zero_stats)
      else None)"
  by (simp only: getAllQueueStats_def map_of_tabulate set_map)

lemma offline_stats: "getQueueStats offline_email email_notification = Inl BrokerError"
  by (simp add: offline_email_def getQueueStats_def put_queue_def initializeQueues_def
      task_types_def queue_get_def new_queue_def)

text \<open>
  Claim C10. For every queue type the manager holds, \<open>getAllQueueStats\<close> has an entry:
  the statistics of the queue when \<open>getQueueStats\<close> returns them, and six zeros when it
  throws. The result has exactly the keys of the manager's map, and \<open>GET /stats/queues\<close>
  answers 200 with it.
\<close>

theorem all_stats_zero_entry_on_error:
  assumes "t \<in> fst ` set (sys_queues s)"
  shows "map fst (getAllQueueStats (sys_queues s)) = map fst (sys_queues s)
    \<and> (\<forall>e. getQueueStats (sys_queues s) t = Inl e \<longrightarrow>
         map_of (getAllQueueStats (sys_queues s)) t =
           Some \<lparr>waiting = 0, active = 0, completed = 0, failed = 0, delayed = 0, paused = 0\<rparr>)
    \<and> (\<forall>st. getQueueStats (sys_queues s) t = Inr st \<longrightarrow>
         map_of (getAllQueueStats (sys_queues s)) t = Some st)
    \<and> status_code (get_stats_queues s) = 200
    \<and> body (get_stats_queues s) = QueueStatsReply (getAllQueueStats (sys_queues s))"
  using assms
  by (simp add: getAllQueueStats_keys getAllQueueStats_entry zero_stats_def get_stats_queues_def)

theorem all_stats_zero_entry_on_error_witness:
  "email_notification \<in> fst ` set (sys_queues \<lparr>sys_db = empty_db, sys_queues = offline_email\<rparr>)
   \<and> getQueueStats offline_email email_notification = Inl BrokerError
   \<and> map_of (getAllQueueStats offline_email) email_notification =
         Some \<lparr>waiting = 0, active = 0, completed = 0, failed = 0, delayed = 0, paused = 0\<rparr>
   \<and> map fst (getAllQueueStats offline_email) = task_types"
  using all_stats_zero_entry_on_error [of email_notification
      "\<lparr>sys_db = empty_db, sys_queues = offline_email\<rparr>"]
    offline_stats
  by (simp add: offline_email_def put_queue_def initializeQueues_def task_types_def)

subsection \<open>Statistics of one queue\<close>

lemma map_of_put_queue_same:
  "map_of qs t = Some q \<Longrightarrow> map_of (put_queue t q' qs) t = Some q'"
  by (induction qs) (auto simp: put_queue_def split: if_splits)

lemma map_of_put_queue_other:
  "k \<noteq> t \<Longrightarrow> map_of (put_queue t q' qs) k = map_of qs k"
  by (induction qs) (auto simp: put_queue_def split: if_splits)

lemma getQueueStats_online:
  "map_of qs t = Some q \<Longrightarrow> online q \<Longrightarrow>
   getQueueStats qs t =
     Inr \<lparr>waiting = length (q_waiting q), active = length (q_active q),
          completed = length (q_completed q), failed = length (q_failed q),
          delayed = length (q_delayed q), paused = 0\<rparr>"
  by (simp add: getQueueStats_def queue_get_def)

lemma init_cleanup: "map_of initializeQueues cleanup_tasks = Some new_queue"
  by (simp add: initializeQueues_def task_types_def)

text \<open>
  Claim C7, as amended. For every queue type whose queue answers, \<open>getQueueStats\<close>
  returns the lengths of the five lists of the queue and 0 for \<open>paused\<close>, whether the
  queue is paused or not: after a successful \<open>pauseQueue\<close> the queue's flag is set and
  the statistics are what they were.
\<close>

theorem stats_paused_is_literal_zero:
  assumes "map_of qs t = Some q" and "online q"
  shows "pauseQueue qs t = (Inr (), put_queue t (q\<lparr>q_paused := True\<rparr>) qs)
    \<and> map_of (put_queue t (q\<lparr>q_paused := True\<rparr>) qs) t = Some (q\<lparr>q_paused := True\<rparr>)
    \<and> getQueueStats (put_queue t (q\<lparr>q_paused := True\<rparr>) qs) t =
        Inr \<lparr>waiting = length (q_waiting q), active = length (q_active q),
             completed = length (q_completed q), failed = length (q_failed q),
             delayed = length (q_delayed q), paused = 0\<rparr>
    \<and> getQueueStats (put_queue t (q\<lparr>q_paused := True\<rparr>) qs) t = getQueueStats qs t"
proof -
  let ?q' = "q\<lparr>q_paused := True\<rparr>"
  have p: "pauseQueue qs t = (Inr (), put_queue t ?q' qs)"
    using assms by (simp add: pauseQueue_def queue_pause_def)
  have m: "map_of (put_queue t ?q' qs) t = Some ?q'"
    using assms(1) by (rule map_of_put_queue_same)
  have "online ?q'" using assms(2) by simp
  from getQueueStats_online [OF m this] getQueueStats_online [OF assms] p m
  show ?thesis by simp
qed

theorem stats_paused_is_literal_zero_witness:
  "map_of initializeQueues cleanup_tasks = Some new_queue \<and> online new_queue
   \<and> pauseQueue initializeQueues cleanup_tasks = (Inr (), paused_cleanup)
   \<and> getQueueStats paused_cleanup cleanup_tasks = Inr zero_stats"
  using stats_paused_is_literal_zero [OF init_cleanup] init_cleanup
  by (simp add: new_queue_def paused_cleanup_def zero_stats_def)

text \<open>
  Claim C7 as stated fails: the cleanup queue is paused, its flag is set, and the
  statistics returned for it say \<open>paused = 0\<close>, as they did before the pause.
\<close>

theorem stats_after_pause_counterexample:
  "pauseQueue initializeQueues cleanup_tasks = (Inr (), paused_cleanup)
   \<and> map_of paused_cleanup cleanup_tasks = Some (new_queue\<lparr>q_paused := True\<rparr>)
   \<and> q_paused (new_queue\<lparr>q_paused := True\<rparr>)
   \<and> getQueueStats paused_cleanup cleanup_tasks =
        Inr \<lparr>waiting = 0, active = 0, completed = 0, failed = 0, delayed = 0, paused = 0\<rparr>
   \<and> getQueueStats initializeQueues cleanup_tasks =
        Inr \<lparr>waiting = 0, active = 0, completed = 0, failed = 0, delayed = 0, paused = 0\<rparr>"
  by (simp add: pauseQueue_def queue_pause_def paused_cleanup_def initializeQueues_def
      task_types_def new_queue_def put_queue_def getQueueStats_def queue_get_def)

subsection \<open>Admission of a task\<close>

lemma parse_type_name: "parse_type (type_name t) = Some t"
  by (cases t) (simp_all add: parse_type_def task_types_def)

lemma type_name_nonempty: "type_name t \<noteq> []"
  by (cases t) simp_all

lemma next_query_no_outage: "outages d = [] \<Longrightarrow> next_query d = (True, d)"
  by (simp add: next_query_def)

lemma find_append:
  "find P (xs @ ys) = (case find P xs of None \<Rightarrow> find P ys | Some x \<Rightarrow> Some x)"
  by (induction xs) auto

lemma post_tasks_rejects:
  assumes "req_priority req = Some p" and "p < 1 \<or> p > 10"
  shows "status_code (fst (post_tasks cfg s uuid uuid2 now req)) = 400
    \<and> snd (post_tasks cfg s uuid uuid2 now req) = s"
  using assms by (simp add: post_tasks_def Let_def split: option.splits)

lemma post_tasks_accepts:
  assumes "req_type req = Some (type_name t)" and "req_data req = Some dat"
    and "p = (case req_priority req of None \<Rightarrow> 5 | Some x \<Rightarrow> x)" and "1 \<le> p" and "p \<le> 10"
    and "outages (sys_db s) = []" and "find_task (sys_db s) uuid = None" and "uuid \<noteq> []"
    and "map_of (sys_queues s) t = Some q" and "online q"
  shows "fst (post_tasks cfg s uuid uuid2 now req) = \<lparr>status_code = 201, body = TaskCreated uuid\<rparr>
      \<and> stored (snd (post_tasks cfg s uuid uuid2 now req)) uuid = Some (p, Waiting)
      \<and> map_option queued (map_of (sys_queues (snd (post_tasks cfg s uuid uuid2 now req))) t) =
          Some (queued q @ [(Some uuid, p)])"
  using assms
  by (simp add: post_tasks_def Let_def parse_type_name type_name_nonempty addTask_def
      createTask_def next_query_no_outage queue_add_def jobOptions_def find_task_def find_append
      map_of_put_queue_same stored_def queued_def in_int4_def)

text \<open>
  Claim C9. A request with priority 0 or 11 is answered 400 and leaves the database and
  the queues as they were. A request with priority 1 or 10, or with none, that names a
  task type and carries data is answered 201 (when the database and the queue answer and
  the new id is unused): the row is stored as waiting and the job is queued, both with
  that priority, which is 5 when the request has none.
\<close>

theorem post_tasks_priority_bounds:
  "((req_priority req = Some 0 \<or> req_priority req = Some 11) \<longrightarrow>
      status_code (fst (post_tasks cfg s uuid uuid2 now req)) = 400
      \<and> snd (post_tasks cfg s uuid uuid2 now req) = s)
   \<and> ((req_priority req = Some 1 \<or> req_priority req = Some 10 \<or> req_priority req = None)
       \<and> req_type req = Some (type_name t) \<and> req_data req = Some dat
       \<and> outages (sys_db s) = [] \<and> find_task (sys_db s) uuid = None \<and> uuid \<noteq> []
       \<and> map_of (sys_queues s) t = Some q \<and> online q \<longrightarrow>
      fst (post_tasks cfg s uuid uuid2 now req) = \<lparr>status_code = 201, body = TaskCreated uuid\<rparr>
      \<and> stored (snd (post_tasks cfg s uuid uuid2 now req)) uuid =
          Some (case req_priority req of None \<Rightarrow> 5 | Some x \<Rightarrow> x, Waiting)
      \<and> map_option queued (map_of (sys_queues (snd (post_tasks cfg s uuid uuid2 now req))) t) =
          Some (queued q @ [(Some uuid, case req_priority req of None \<Rightarrow> 5 | Some x \<Rightarrow> x)]))"
proof (intro conjI impI)
  assume "req_priority req = Some 0 \<or> req_priority req = Some 11"
  then obtain p where "req_priority req = Some p" "p < 1 \<or> p > 10" by auto
  from post_tasks_rejects [OF this]
  show "status_code (fst (post_tasks cfg s uuid uuid2 now req)) = 400"
    and "snd (post_tasks cfg s uuid uuid2 now req) = s" by simp_all
next
  assume a: "(req_priority req = Some 1 \<or> req_priority req = Some 10 \<or> req_priority req = None)
       \<and> req_type req = Some (type_name t) \<and> req_data req = Some dat
       \<and> outages (sys_db s) = [] \<and> find_task (sys_db s) uuid = None \<and> uuid \<noteq> []
       \<and> map_of (sys_queues s) t = Some q \<and> online q"
  let ?p = "case req_priority req of None \<Rightarrow> 5 | Some x \<Rightarrow> x"
  from a have r: "1 \<le> ?p" "?p \<le> 10" by auto
  from a have acc:
    "fst (post_tasks cfg s uuid uuid2 now req) = \<lparr>status_code = 201, body = TaskCreated uuid\<rparr>
      \<and> stored (snd (post_tasks cfg s uuid uuid2 now req)) uuid = Some (?p, Waiting)
      \<and> map_option queued (map_of (sys_queues (snd (post_tasks cfg s uuid uuid2 now req))) t) =
          Some (queued q @ [(Some uuid, ?p)])"
    using post_tasks_accepts [of req t dat ?p s uuid q cfg uuid2 now] r by blast
  from acc show "fst (post_tasks cfg s uuid uuid2 now req) =
      \<lparr>status_code = 201, body = TaskCreated uuid\<rparr>"
    by blast
  from acc show "stored (snd (post_tasks cfg s uuid uuid2 now req)) uuid = Some (?p, Waiting)"
    by blast
  from acc show "map_option queued
        (map_of (sys_queues (snd (post_tasks cfg s uuid uuid2 now req))) t) =
      Some (queued q @ [(Some uuid, ?p)])"
    by blast
qed

theorem post_tasks_priority_bounds_witness:
  "req_priority (req_of (Some 11)) = Some 11
   \<and> status_code (fst (post_tasks default_queues fresh_system ''u1'' ''u2'' 1000 (req_of (Some 11)))) = 400
   \<and> snd (post_tasks default_queues fresh_system ''u1'' ''u2'' 1000 (req_of (Some 11))) = fresh_system
   \<and> req_priority (req_of (Some 10)) = Some 10
   \<and> req_type (req_of (Some 10)) = Some (type_name email_notification)
   \<and> req_data (req_of (Some 10)) = Some email_data
   \<and> outages (sys_db fresh_system) = [] \<and> find_task (sys_db fresh_system) ''u1'' = None
   \<and> map_of (sys_queues fresh_system) email_notification = Some new_queue \<and> online new_queue
   \<and> fst (post_tasks default_queues fresh_system ''u1'' ''u2'' 1000 (req_of (Some 10))) =
        \<lparr>status_code = 201, body = TaskCreated ''u1''\<rparr>
   \<and> stored (snd (post_tasks default_queues fresh_system ''u1'' ''u2'' 1000 (req_of (Some 10)))) ''u1'' =
        Some (10, Waiting)
   \<and> map_option queued (map_of (sys_queues
        (snd (post_tasks default_queues fresh_system ''u1'' ''u2'' 1000 (req_of (Some 10)))))
          email_notification) = Some [(Some ''u1'', 10)]"
  using post_tasks_priority_bounds [of "req_of (Some 11)" default_queues fresh_system "''u1''" "''u2''"
      1000 email_notification email_data new_queue]
    post_tasks_priority_bounds [of "req_of (Some 10)" default_queues fresh_system "''u1''" "''u2''"
      1000 email_notification email_data new_queue]
  by (simp add: req_of_def fresh_system_def empty_db_def find_task_def initializeQueues_def
      task_types_def new_queue_def queued_def)

subsection \<open>Metrics of the store\<close>

lemma next_query_tables:
  "next_query d = (ok, d1) \<Longrightarrow> tasks d1 = tasks d \<and> task_results d1 = task_results d"
  by (auto simp: next_query_def split: list.splits)

lemma next_query_script:
  "next_query d = (\<not> (outages d \<noteq> [] \<and> hd (outages d)), d\<lparr>outages := tl (outages d)\<rparr>)"
  by (cases "outages d") (simp_all add: next_query_def)

lemma next_queries_script:
  "next_queries n d = (True \<notin> set (take n (outages d)), d\<lparr>outages := drop n (outages d)\<rparr>)"
proof (induction n arbitrary: d)
  case 0
  then show ?case by simp
next
  case (Suc n)
  show ?case
    by (cases "outages d") (auto simp: next_query_script Suc.IH)
qed

lemma getMetrics_answers:
  assumes "True \<notin> set (take 6 (outages d))"
  shows "getMetrics d =
     (Inr \<lparr>totalTasks = length (tasks d),
           completedTasks = count_status Completed (tasks d),
           failedTasks = count_status Failed (tasks d),
           pendingTasks = length (filter (\<lambda>r. row_status r = Waiting \<or> row_status r = Active \<or>
               row_status r = Delayed) (tasks d)),
           averageProcessingTime = (case avg_time (tasks d) of None \<Rightarrow> 0 | Some a \<Rightarrow> a),
           successRate = success_rate (tasks d)\<rparr>,
      d\<lparr>outages := drop 6 (outages d)\<rparr>)"
  using assms by (simp add: getMetrics_def next_queries_script count_status_def)

lemma getMetrics_fails:
  assumes "True \<in> set (take 6 (outages d))"
  shows "getMetrics d = (Inl QueryFailed, d\<lparr>outages := drop 6 (outages d)\<rparr>)"
  using assms by (simp add: getMetrics_def next_queries_script)

lemma pending_count:
  "length (filter (\<lambda>r. row_status r = Waiting \<or> row_status r = Active \<or> row_status r = Delayed) rows)
   = count_status Waiting rows + count_status Active rows + count_status Delayed rows"
  by (induction rows) (auto simp: count_status_def)

lemma settled_count:
  "length (filter (\<lambda>r. row_status r = Completed \<or> row_status r = Failed) rows)
   = count_status Completed rows + count_status Failed rows"
  by (induction rows) (auto simp: count_status_def)

lemma completed_of_settled:
  "filter (\<lambda>r. row_status r = Completed)
     (filter (\<lambda>r. row_status r = Completed \<or> row_status r = Failed) rows)
   = filter (\<lambda>r. row_status r = Completed) rows"
  by (induction rows) auto

lemma success_rate_eq:
  "success_rate rows =
     (if count_status Completed rows + count_status Failed rows = 0 then 0
      else 100 * real (count_status Completed rows) /
           real (count_status Completed rows + count_status Failed rows))"
  unfolding success_rate_def Let_def completed_of_settled settled_count
  by (simp add: count_status_def)

lemma timed_completed_all:
  "\<forall>r \<in> set rows. row_status r = Completed \<longrightarrow> started_at r \<noteq> None \<and> completed_at r \<noteq> None \<Longrightarrow>
   timed_completed rows = filter (\<lambda>r. row_status r = Completed) rows"
  unfolding timed_completed_def by (rule filter_cong) auto

lemma epoch_seconds_timed:
  "started_at r \<noteq> None \<Longrightarrow> completed_at r \<noteq> None \<Longrightarrow>
   epoch_seconds r = processing_seconds r"
  by (auto simp: epoch_seconds_def processing_seconds_def)

lemma avg_time_all:
  assumes "\<forall>r \<in> set rows. row_status r = Completed \<longrightarrow> started_at r \<noteq> None \<and> completed_at r \<noteq> None"
  shows "(case avg_time rows of None \<Rightarrow> 0 | Some a \<Rightarrow> a) =
     (if count_status Completed rows = 0 then 0
      else sum_list (map processing_seconds (filter (\<lambda>r. row_status r = Completed) rows))
           / real (count_status Completed rows))"
proof -
  have t: "timed_completed rows = filter (\<lambda>r. row_status r = Completed) rows"
    using assms by (rule timed_completed_all)
  have e: "map epoch_seconds (filter (\<lambda>r. row_status r = Completed) rows) =
        map processing_seconds (filter (\<lambda>r. row_status r = Completed) rows)"
    using assms by (intro map_cong refl epoch_seconds_timed) auto
  show ?thesis
    by (simp add: avg_time_def t count_status_def Let_def e)
qed

text \<open>
  Claim C6. \<open>getMetrics\<close> sends six queries. When the connection answers all six, it
  returns a snapshot, and in it pending is the number of waiting plus active plus delayed
  jobs; completed and failed are the numbers of jobs in these statuses; the success rate
  is 100 times completed over completed plus failed, and 0 when there is neither; and,
  every completed job having its two dates, the average processing time is the mean of
  \<open>completed_at - started_at\<close> in seconds over the completed jobs (0 when there is
  none). The tables are left as they are. When one of the six queries fails, the call
  throws and there is no snapshot.
\<close>

theorem metrics_snapshot:
  "(True \<notin> set (take 6 (outages d)) \<longrightarrow>
      (\<exists>m. getMetrics d = (Inr m, d\<lparr>outages := drop 6 (outages d)\<rparr>)
        \<and> totalTasks m = length (tasks d)
        \<and> pendingTasks m =
            count_status Waiting (tasks d) + count_status Active (tasks d)
              + count_status Delayed (tasks d)
        \<and> completedTasks m = count_status Completed (tasks d)
        \<and> failedTasks m = count_status Failed (tasks d)
        \<and> successRate m =
            (if completedTasks m + failedTasks m = 0 then 0
             else 100 * real (completedTasks m) / real (completedTasks m + failedTasks m))
        \<and> ((\<forall>r \<in> set (tasks d). row_status r = Completed \<longrightarrow>
                started_at r \<noteq> None \<and> completed_at r \<noteq> None) \<longrightarrow>
            averageProcessingTime m =
              (if completedTasks m = 0 then 0
               else sum_list (map processing_seconds
                                (filter (\<lambda>r. row_status r = Completed) (tasks d)))
                    / real (completedTasks m)))))
   \<and> (True \<in> set (take 6 (outages d)) \<longrightarrow> fst (getMetrics d) = Inl QueryFailed)"
proof (intro conjI impI)
  assume a: "True \<notin> set (take 6 (outages d))"
  show "\<exists>m. getMetrics d = (Inr m, d\<lparr>outages := drop 6 (outages d)\<rparr>)
        \<and> totalTasks m = length (tasks d)
        \<and> pendingTasks m =
            count_status Waiting (tasks d) + count_status Active (tasks d)
              + count_status Delayed (tasks d)
        \<and> completedTasks m = count_status Completed (tasks d)
        \<and> failedTasks m = count_status Failed (tasks d)
        \<and> successRate m =
            (if completedTasks m + failedTasks m = 0 then 0
             else 100 * real (completedTasks m) / real (completedTasks m + failedTasks m))
        \<and> ((\<forall>r \<in> set (tasks d). row_status r = Completed \<longrightarrow>
                started_at r \<noteq> None \<and> completed_at r \<noteq> None) \<longrightarrow>
            averageProcessingTime m =
              (if completedTasks m = 0 then 0
               else sum_list (map processing_seconds
                                (filter (\<lambda>r. row_status r = Completed) (tasks d)))
                    / real (completedTasks m)))"
    unfolding getMetrics_answers [OF a]
    by (simp add: pending_count success_rate_eq avg_time_all)
next
  assume "True \<in> set (take 6 (outages d))"
  then show "fst (getMetrics d) = Inl QueryFailed" by (simp add: getMetrics_fails)
qed

lemma metrics_db_run:
  "getMetrics metrics_db =
     (Inr \<lparr>totalTasks = 5, completedTasks = 2, failedTasks = 1, pendingTasks = 2,
           averageProcessingTime = 5 / 2, successRate = 200 / 3\<rparr>, metrics_db)"
  by (simp add: getMetrics_def metrics_db_def example_row_def next_query_def avg_time_def
      timed_completed_def epoch_seconds_def success_rate_def Let_def numeral_eq_Suc)

theorem metrics_snapshot_witness:
  "True \<notin> set (take 6 (outages metrics_db))
   \<and> getMetrics metrics_db =
     (Inr \<lparr>totalTasks = 5, completedTasks = 2, failedTasks = 1, pendingTasks = 2,
           averageProcessingTime = 5 / 2, successRate = 200 / 3\<rparr>, metrics_db)
   \<and> count_status Waiting (tasks metrics_db) + count_status Active (tasks metrics_db)
       + count_status Delayed (tasks metrics_db) = 2
   \<and> sum_list (map processing_seconds
        (filter (\<lambda>r. row_status r = Completed) (tasks metrics_db))) / real 2 = 5 / 2
   \<and> True \<in> set (take 6 (outages (metrics_db\<lparr>outages := [False, False, True]\<rparr>)))
   \<and> fst (getMetrics (metrics_db\<lparr>outages := [False, False, True]\<rparr>)) = Inl QueryFailed"
  using metrics_snapshot [of metrics_db]
    metrics_snapshot [of "metrics_db\<lparr>outages := [False, False, True]\<rparr>"] metrics_db_run
  by (simp add: count_status_def metrics_db_def example_row_def processing_seconds_def)

subsection \<open>The status update of the store\<close>

lemma find_replace:
  "find (\<lambda>x. row_id x = i) rows = Some r \<Longrightarrow> row_id r' = i \<Longrightarrow>
   find (\<lambda>x. row_id x = i) (map (\<lambda>x. if row_id x = i then r' else x) rows) = Some r'"
  by (induction rows) (auto split: if_splits)

lemma find_replace_other:
  "j \<noteq> i \<Longrightarrow> row_id r' = i \<Longrightarrow>
   find (\<lambda>x. row_id x = j) (map (\<lambda>x. if row_id x = i then r' else x) rows) =
   find (\<lambda>x. row_id x = j) rows"
  by (induction rows) auto

lemma map_id_replace:
  "row_id r' = i \<Longrightarrow> map row_id (map (\<lambda>x. if row_id x = i then r' else x) rows) = map row_id rows"
  by (induction rows) auto

lemma find_task_id: "find_task d i = Some r \<Longrightarrow> row_id r = i"
  by (auto simp: find_task_def find_Some_iff)

lemma row_id_set_columns: "row_id (set_columns now st ad r) = row_id r"
  by (simp add: set_columns_def)

lemma row_progress_set_columns:
  "row_progress (set_columns now st ad r) = (case ad_progress ad of None \<Rightarrow> row_progress r | Some p \<Rightarrow> p)"
  by (simp add: set_columns_def)

lemma set_columns_fields:
  "row_status (set_columns now st ad r) = st"
  "max_retries (set_columns now st ad r) = max_retries r"
  "row_attempts (set_columns now st ad r) =
     (case ad_attempts ad of None \<Rightarrow> row_attempts r | Some n \<Rightarrow> n)"
  by (simp_all add: set_columns_def)

lemma progress_fits:
  assumes "0 \<le> (case ad_progress ad of None \<Rightarrow> row_progress r | Some p \<Rightarrow> p)"
    and "(case ad_progress ad of None \<Rightarrow> row_progress r | Some p \<Rightarrow> p) \<le> 100"
  shows "in_int4 (case ad_progress ad of None \<Rightarrow> 0 | Some p \<Rightarrow> p)"
  using assms by (cases "ad_progress ad") (simp_all add: in_int4_def)

text \<open>One successful UPDATE of an existing row.\<close>

lemma updateTaskStatus_ok:
  assumes "next_query d = (True, d1)" and "find_task d i = Some r"
    and "in_int4 (case ad_attempts ad of None \<Rightarrow> 0 | Some n \<Rightarrow> n)"
    and "0 \<le> (case ad_progress ad of None \<Rightarrow> row_progress r | Some p \<Rightarrow> p)"
    and "(case ad_progress ad of None \<Rightarrow> row_progress r | Some p \<Rightarrow> p) \<le> 100"
  shows "fst (updateTaskStatus d now i st ad) = Inr ()"
    and "find_task (snd (updateTaskStatus d now i st ad)) i = Some (set_columns now st ad r)"
    and "task_results (snd (updateTaskStatus d now i st ad)) = task_results d"
    and "outages (snd (updateTaskStatus d now i st ad)) = outages d1"
    and "j \<noteq> i \<Longrightarrow> find_task (snd (updateTaskStatus d now i st ad)) j = find_task d j"
    and "map row_id (tasks (snd (updateTaskStatus d now i st ad))) = map row_id (tasks d)"
proof -
  have t: "tasks d1 = tasks d" "task_results d1 = task_results d"
    using next_query_tables [OF assms(1)] by simp_all
  then have f: "find_task d1 i = Some r" using assms(2) by (simp add: find_task_def)
  have p: "in_int4 (case ad_progress ad of None \<Rightarrow> 0 | Some p \<Rightarrow> p)"
    using assms(4,5) by (rule progress_fits)
  have c: "\<not> (row_progress (set_columns now st ad r) < 0 \<or> row_progress (set_columns now st ad r) > 100)"
    using assms(4,5) by (simp add: row_progress_set_columns)
  have u: "updateTaskStatus d now i st ad =
      (Inr (), d1\<lparr>tasks := map (\<lambda>x. if row_id x = i then set_columns now st ad r else x) (tasks d1)\<rparr>)"
    using assms(1,3) f p c by (simp add: updateTaskStatus_def Let_def)
  have ri: "row_id (set_columns now st ad r) = i"
    using find_task_id [OF f] by (simp add: row_id_set_columns)
  show "fst (updateTaskStatus d now i st ad) = Inr ()" by (simp add: u)
  show "find_task (snd (updateTaskStatus d now i st ad)) i = Some (set_columns now st ad r)"
    using f ri by (simp add: u find_task_def find_replace)
  show "task_results (snd (updateTaskStatus d now i st ad)) = task_results d" by (simp add: u t)
  show "outages (snd (updateTaskStatus d now i st ad)) = outages d1" by (simp add: u)
  show "j \<noteq> i \<Longrightarrow> find_task (snd (updateTaskStatus d now i st ad)) j = find_task d j"
    using ri by (simp add: u find_task_def find_replace_other t)
  show "map row_id (tasks (snd (updateTaskStatus d now i st ad))) = map row_id (tasks d)"
    using ri by (simp add: u map_id_replace t)
qed

lemma updateTaskStatus_missing:
  assumes "next_query d = (True, d1)" and "find_task d i = None"
    and "in_int4 (case ad_attempts ad of None \<Rightarrow> 0 | Some n \<Rightarrow> n)"
    and "in_int4 (case ad_progress ad of None \<Rightarrow> 0 | Some p \<Rightarrow> p)"
  shows "updateTaskStatus d now i st ad = (Inr (), d1)"
proof -
  have "tasks d1 = tasks d" using next_query_tables [OF assms(1)] by simp
  then have "find_task d1 i = None" using assms(2) by (simp add: find_task_def)
  then show ?thesis using assms(1,3,4) by (simp add: updateTaskStatus_def)
qed

lemma updateTaskStatus_outage:
  assumes "next_query d = (False, d1)"
  shows "updateTaskStatus d now i st ad = (Inl QueryFailed, d1)"
  using assms by (simp add: updateTaskStatus_def)

text \<open>A status update that throws has changed no table.\<close>

lemma updateTaskStatus_throws:
  assumes "fst (updateTaskStatus d now i st ad) = Inl e"
  shows "e = QueryFailed \<or> e = OutOfRange \<or> e = CheckViolation"
    and "tasks (snd (updateTaskStatus d now i st ad)) = tasks d"
    and "task_results (snd (updateTaskStatus d now i st ad)) = task_results d"
    and "outages (snd (updateTaskStatus d now i st ad)) = tl (outages d)"
  using assms
  by (auto simp: updateTaskStatus_def next_query_script Let_def split: if_splits option.splits)

lemma saveTaskResult_outage:
  assumes "next_query d = (False, d1)"
  shows "saveTaskResult d now res = (Inl QueryFailed, d1)"
  using assms by (simp add: saveTaskResult_def)

lemma saveTaskResult_ok:
  assumes "next_query d = (True, d1)" and "find_task d (taskId res) = Some r"
    and "in_int4 (duration res)" and "in_int4 (res_attempts res)"
  shows "fst (saveTaskResult d now res) = Inr ()"
    and "tasks (snd (saveTaskResult d now res)) = tasks d"
    and "outages (snd (saveTaskResult d now res)) = outages d1"
    and "task_results (snd (saveTaskResult d now res)) = task_results d @
           [\<lparr>rr_task_id = taskId res, rr_success = success res, rr_data = res_data res,
             rr_error = res_error res, rr_duration = duration res,
             rr_attempts = res_attempts res, rr_created_at = now\<rparr>]"
proof -
  have t: "tasks d1 = tasks d" "task_results d1 = task_results d"
    using next_query_tables [OF assms(1)] by simp_all
  then have f: "find_task d1 (taskId res) = Some r" using assms(2) by (simp add: find_task_def)
  from assms(1,3,4) f t show "fst (saveTaskResult d now res) = Inr ()"
    and "tasks (snd (saveTaskResult d now res)) = tasks d"
    and "outages (snd (saveTaskResult d now res)) = outages d1"
    and "task_results (snd (saveTaskResult d now res)) = task_results d @
           [\<lparr>rr_task_id = taskId res, rr_success = success res, rr_data = res_data res,
             rr_error = res_error res, rr_duration = duration res,
             rr_attempts = res_attempts res, rr_created_at = now\<rparr>]"
    by (simp_all add: saveTaskResult_def)
qed

lemma metrics_db_query: "next_query metrics_db = (True, metrics_db)"
  by (simp add: next_query_def metrics_db_def)

lemma metrics_db_a:
  "find_task metrics_db ''a'' = Some (example_row ''a'' Completed (Some 1000) (Some 4000))"
  by (simp add: find_task_def metrics_db_def example_row_def)

text \<open>
  Claim C2, as amended. \<open>updateTaskStatus\<close> checks no transition. When the connection
  answers and a job with the id is stored, it writes the requested status whatever the
  stored status is, together with \<open>updated_at\<close>, each date that is given, attempts,
  progress and result when given and the error when it is a non-empty text; the other
  columns of the row, the other rows and the result table stay as they are. This needs
  the given attempts to fit an INTEGER and the resulting progress to be within 0 and 100.
  When no job with the id is stored, it succeeds and changes nothing. It resolves to no
  value in both cases: neither a row nor NotFound. When it throws, it is the connection,
  a number outside INTEGER or the CHECK on progress, and no table has changed.
\<close>

theorem updateTaskStatus_checks_no_transition:
  "(next_query d = (True, d1) \<and> find_task d i = Some r
     \<and> in_int4 (case ad_attempts ad of None \<Rightarrow> 0 | Some n \<Rightarrow> n)
     \<and> 0 \<le> (case ad_progress ad of None \<Rightarrow> row_progress r | Some p \<Rightarrow> p)
     \<and> (case ad_progress ad of None \<Rightarrow> row_progress r | Some p \<Rightarrow> p) \<le> 100 \<longrightarrow>
       fst (updateTaskStatus d now i st ad) = Inr ()
       \<and> find_task (snd (updateTaskStatus d now i st ad)) i =
           Some (r\<lparr>row_status := st,
                   updated_at := Some now,
                   started_at := (case ad_startedAt ad of None \<Rightarrow> started_at r | Some t \<Rightarrow> Some t),
                   completed_at := (case ad_completedAt ad of None \<Rightarrow> completed_at r | Some t \<Rightarrow> Some t),
                   failed_at := (case ad_failedAt ad of None \<Rightarrow> failed_at r | Some t \<Rightarrow> Some t),
                   row_attempts := (case ad_attempts ad of None \<Rightarrow> row_attempts r | Some n \<Rightarrow> n),
                   row_progress := (case ad_progress ad of None \<Rightarrow> row_progress r | Some p \<Rightarrow> p),
                   row_result := (case ad_result ad of None \<Rightarrow> row_result r | Some j \<Rightarrow> Some j),
                   row_error :=
                     (case ad_error ad of
                        None \<Rightarrow> row_error r
                      | Some e \<Rightarrow> if e = [] then row_error r else Some e)\<rparr>)
       \<and> (\<forall>j. j \<noteq> i \<longrightarrow> find_task (snd (updateTaskStatus d now i st ad)) j = find_task d j)
       \<and> map row_id (tasks (snd (updateTaskStatus d now i st ad))) = map row_id (tasks d)
       \<and> task_results (snd (updateTaskStatus d now i st ad)) = task_results d
       \<and> outages (snd (updateTaskStatus d now i st ad)) = outages d1)
   \<and> (next_query d = (True, d1) \<and> find_task d i = None
       \<and> in_int4 (case ad_attempts ad of None \<Rightarrow> 0 | Some n \<Rightarrow> n)
       \<and> in_int4 (case ad_progress ad of None \<Rightarrow> 0 | Some p \<Rightarrow> p) \<longrightarrow>
         updateTaskStatus d now i st ad = (Inr (), d1))
   \<and> (\<forall>e. fst (updateTaskStatus d now i st ad) = Inl e \<longrightarrow>
         (e = QueryFailed \<or> e = OutOfRange \<or> e = CheckViolation)
         \<and> tasks (snd (updateTaskStatus d now i st ad)) = tasks d
         \<and> task_results (snd (updateTaskStatus d now i st ad)) = task_results d)"
proof (intro conjI impI allI)
  assume a: "next_query d = (True, d1) \<and> find_task d i = Some r
     \<and> in_int4 (case ad_attempts ad of None \<Rightarrow> 0 | Some n \<Rightarrow> n)
     \<and> 0 \<le> (case ad_progress ad of None \<Rightarrow> row_progress r | Some p \<Rightarrow> p)
     \<and> (case ad_progress ad of None \<Rightarrow> row_progress r | Some p \<Rightarrow> p) \<le> 100"
  then have q: "next_query d = (True, d1)" and f: "find_task d i = Some r"
    and n: "in_int4 (case ad_attempts ad of None \<Rightarrow> 0 | Some n \<Rightarrow> n)"
    and lo: "0 \<le> (case ad_progress ad of None \<Rightarrow> row_progress r | Some p \<Rightarrow> p)"
    and hi: "(case ad_progress ad of None \<Rightarrow> row_progress r | Some p \<Rightarrow> p) \<le> 100"
    by simp_all
  note ok = updateTaskStatus_ok [OF q f n lo hi]
  show "fst (updateTaskStatus d now i st ad) = Inr ()" by (rule ok(1))
  show "find_task (snd (updateTaskStatus d now i st ad)) i =
           Some (r\<lparr>row_status := st,
                   updated_at := Some now,
                   started_at := (case ad_startedAt ad of None \<Rightarrow> started_at r | Some t \<Rightarrow> Some t),
                   completed_at := (case ad_completedAt ad of None \<Rightarrow> completed_at r | Some t \<Rightarrow> Some t),
                   failed_at := (case ad_failedAt ad of None \<Rightarrow> failed_at r | Some t \<Rightarrow> Some t),
                   row_attempts := (case ad_attempts ad of None \<Rightarrow> row_attempts r | Some n \<Rightarrow> n),
                   row_progress := (case ad_progress ad of None \<Rightarrow> row_progress r | Some p \<Rightarrow> p),
                   row_result := (case ad_result ad of None \<Rightarrow> row_result r | Some j \<Rightarrow> Some j),
                   row_error :=
                     (case ad_error ad of
                        None \<Rightarrow> row_error r
                      | Some e \<Rightarrow> if e = [] then row_error r else Some e)\<rparr>)"
    using ok(2) by (simp add: set_columns_def)
  show "\<And>j. j \<noteq> i \<Longrightarrow> find_task (snd (updateTaskStatus d now i st ad)) j = find_task d j"
    by (rule ok(5))
  show "map row_id (tasks (snd (updateTaskStatus d now i st ad))) = map row_id (tasks d)"
    by (rule ok(6))
  show "task_results (snd (updateTaskStatus d now i st ad)) = task_results d" by (rule ok(3))
  show "outages (snd (updateTaskStatus d now i st ad)) = outages d1" by (rule ok(4))
next
  assume "next_query d = (True, d1) \<and> find_task d i = None
       \<and> in_int4 (case ad_attempts ad of None \<Rightarrow> 0 | Some n \<Rightarrow> n)
       \<and> in_int4 (case ad_progress ad of None \<Rightarrow> 0 | Some p \<Rightarrow> p)"
  then show "updateTaskStatus d now i st ad = (Inr (), d1)"
    by (simp add: updateTaskStatus_missing)
next
  fix e assume e: "fst (updateTaskStatus d now i st ad) = Inl e"
  show "e = QueryFailed \<or> e = OutOfRange \<or> e = CheckViolation"
    using updateTaskStatus_throws(1) [OF e] .
  show "tasks (snd (updateTaskStatus d now i st ad)) = tasks d"
    using updateTaskStatus_throws(2) [OF e] .
  show "task_results (snd (updateTaskStatus d now i st ad)) = task_results d"
    using updateTaskStatus_throws(3) [OF e] .
qed

theorem updateTaskStatus_checks_no_transition_witness:
  "next_query metrics_db = (True, metrics_db)
   \<and> find_task metrics_db ''a'' = Some (example_row ''a'' Completed (Some 1000) (Some 4000))
   \<and> fst (updateTaskStatus metrics_db 9000 ''a'' Active
            (no_data\<lparr>ad_startedAt := Some 9000, ad_attempts := Some 2\<rparr>)) = Inr ()
   \<and> find_task (snd (updateTaskStatus metrics_db 9000 ''a'' Active
            (no_data\<lparr>ad_startedAt := Some 9000, ad_attempts := Some 2\<rparr>))) ''a'' =
       Some \<lparr>row_id = ''a'', row_type = email_notification, row_priority = 5, row_data = email_data,
             row_status = Active, created_at = Some 0, updated_at = Some 9000,
             started_at = Some 9000, completed_at = Some 4000, failed_at = None,
             row_attempts = 2, max_retries = 3, row_progress = 0, row_result = None,
             row_error = None\<rparr>
   \<and> find_task (snd (updateTaskStatus metrics_db 9000 ''a'' Active
            (no_data\<lparr>ad_startedAt := Some 9000, ad_attempts := Some 2\<rparr>))) ''b'' =
       Some (example_row ''b'' Completed (Some 2000) (Some 4000))
   \<and> find_task metrics_db ''zz'' = None
   \<and> updateTaskStatus metrics_db 9000 ''zz'' Active no_data = (Inr (), metrics_db)
   \<and> fst (updateTaskStatus metrics_db 9000 ''a'' Active (no_data\<lparr>ad_attempts := Some 3000000000\<rparr>))
       = Inl OutOfRange
   \<and> tasks (snd (updateTaskStatus metrics_db 9000 ''a'' Active
            (no_data\<lparr>ad_attempts := Some 3000000000\<rparr>))) = tasks metrics_db"
  using updateTaskStatus_checks_no_transition [of metrics_db metrics_db "''a''"
      "example_row ''a'' Completed (Some 1000) (Some 4000)"
      "no_data\<lparr>ad_startedAt := Some 9000, ad_attempts := Some 2\<rparr>" 9000 Active]
    updateTaskStatus_checks_no_transition [of metrics_db metrics_db "''zz''"
      "example_row ''a'' Completed (Some 1000) (Some 4000)" no_data 9000 Active]
    updateTaskStatus_checks_no_transition [of metrics_db metrics_db "''a''"
      "example_row ''a'' Completed (Some 1000) (Some 4000)"
      "no_data\<lparr>ad_attempts := Some 3000000000\<rparr>" 9000 Active]
    metrics_db_query metrics_db_a
  by (simp add: no_data_def in_int4_def example_row_def)
     (simp add: updateTaskStatus_def next_query_def find_task_def metrics_db_def example_row_def
      in_int4_def)

text \<open>
  Claim C2 as stated fails: task \<open>a\<close> is completed, and the update to waiting is carried
  out; the update of an id that is not stored is no error.
\<close>

theorem terminal_transition_counterexample:
  "map_option row_status (find_task metrics_db ''a'') = Some Completed
   \<and> \<not> allowed_transition Completed Waiting
   \<and> fst (updateTaskStatus metrics_db 9000 ''a'' Waiting no_data) = Inr ()
   \<and> map_option row_status (find_task (snd (updateTaskStatus metrics_db 9000 ''a'' Waiting no_data)) ''a'')
       = Some Waiting
   \<and> find_task metrics_db ''zz'' = None
   \<and> updateTaskStatus metrics_db 9000 ''zz'' Waiting no_data = (Inr (), metrics_db)"
  by (simp add: updateTaskStatus_def next_query_def find_task_def metrics_db_def example_row_def
      set_columns_def no_data_def allowed_transition_def in_int4_def)

subsection \<open>Retry options of a queued job\<close>






subsection \<open>Throughput\<close>



subsection \<open>One attempt of a job\<close>

lemma next_query_answers:
  assumes "True \<notin> set (outages d)"
  shows "next_query d = (True, d\<lparr>outages := tl (outages d)\<rparr>)"
    and "True \<notin> set (tl (outages d))"
  using assms by (cases "outages d"; simp add: next_query_def)+

lemma next_query_up: "outages d = False # rest \<Longrightarrow> next_query d = (True, d\<lparr>outages := rest\<rparr>)"
  by (simp add: next_query_def)

lemma next_query_down: "outages d = True # rest \<Longrightarrow> next_query d = (False, d\<lparr>outages := rest\<rparr>)"
  by (simp add: next_query_def)

lemma updateTaskStatus_upE:
  assumes "next_query d = (True, d1)" and "find_task d i = Some r"
    and "in_int4 (case ad_attempts ad of None \<Rightarrow> 0 | Some n \<Rightarrow> n)"
    and "0 \<le> (case ad_progress ad of None \<Rightarrow> row_progress r | Some p \<Rightarrow> p)"
    and "(case ad_progress ad of None \<Rightarrow> row_progress r | Some p \<Rightarrow> p) \<le> 100"
  obtains d' where "updateTaskStatus d now i st ad = (Inr (), d')"
    and "find_task d' i = Some (set_columns now st ad r)"
    and "task_results d' = task_results d" and "outages d' = outages d1"
proof -
  from updateTaskStatus_ok(1-4) [OF assms]
  have "updateTaskStatus d now i st ad = (Inr (), snd (updateTaskStatus d now i st ad))"
    and "find_task (snd (updateTaskStatus d now i st ad)) i = Some (set_columns now st ad r)"
    and "task_results (snd (updateTaskStatus d now i st ad)) = task_results d"
    and "outages (snd (updateTaskStatus d now i st ad)) = outages d1"
    by (simp_all add: prod_eq_iff)
  then show ?thesis by (rule that)
qed

lemma updateTaskStatus_okE:
  assumes "True \<notin> set (outages d)" and "find_task d i = Some r"
    and "in_int4 (case ad_attempts ad of None \<Rightarrow> 0 | Some n \<Rightarrow> n)"
    and "0 \<le> (case ad_progress ad of None \<Rightarrow> row_progress r | Some p \<Rightarrow> p)"
    and "(case ad_progress ad of None \<Rightarrow> row_progress r | Some p \<Rightarrow> p) \<le> 100"
  obtains d' where "updateTaskStatus d now i st ad = (Inr (), d')"
    and "find_task d' i = Some (set_columns now st ad r)"
    and "task_results d' = task_results d" and "True \<notin> set (outages d')"
proof -
  note q = next_query_answers [OF assms(1)]
  obtain d' where A: "updateTaskStatus d now i st ad = (Inr (), d')"
    and B: "find_task d' i = Some (set_columns now st ad r)"
    and C: "task_results d' = task_results d"
    and D: "outages d' = outages (d\<lparr>outages := tl (outages d)\<rparr>)"
    using updateTaskStatus_upE [OF q(1) assms(2-5)] by metis
  have "True \<notin> set (outages d')" using D q(2) by simp
  from that [OF A B C this] show ?thesis .
qed

lemma saveTaskResult_upE:
  assumes "next_query d = (True, d1)" and "find_task d (taskId res) = Some r"
    and "in_int4 (duration res)" and "in_int4 (res_attempts res)"
  obtains d' where "saveTaskResult d now res = (Inr (), d')"
    and "tasks d' = tasks d" and "outages d' = outages d1"
    and "task_results d' = task_results d @
           [\<lparr>rr_task_id = taskId res, rr_success = success res, rr_data = res_data res,
             rr_error = res_error res, rr_duration = duration res,
             rr_attempts = res_attempts res, rr_created_at = now\<rparr>]"
proof -
  from saveTaskResult_ok [OF assms]
  have "saveTaskResult d now res = (Inr (), snd (saveTaskResult d now res))"
    and "tasks (snd (saveTaskResult d now res)) = tasks d"
    and "outages (snd (saveTaskResult d now res)) = outages d1"
    and "task_results (snd (saveTaskResult d now res)) = task_results d @
           [\<lparr>rr_task_id = taskId res, rr_success = success res, rr_data = res_data res,
             rr_error = res_error res, rr_duration = duration res,
             rr_attempts = res_attempts res, rr_created_at = now\<rparr>]"
    by (simp_all add: prod_eq_iff)
  then show ?thesis by (rule that)
qed

lemma saveTaskResult_okE:
  assumes "True \<notin> set (outages d)" and "find_task d (taskId res) = Some r"
    and "in_int4 (duration res)" and "in_int4 (res_attempts res)"
  obtains d' where "saveTaskResult d now res = (Inr (), d')"
    and "tasks d' = tasks d" and "True \<notin> set (outages d')"
    and "task_results d' = task_results d @
           [\<lparr>rr_task_id = taskId res, rr_success = success res, rr_data = res_data res,
             rr_error = res_error res, rr_duration = duration res,
             rr_attempts = res_attempts res, rr_created_at = now\<rparr>]"
proof -
  note q = next_query_answers [OF assms(1)]
  obtain d' where A: "saveTaskResult d now res = (Inr (), d')"
    and B: "tasks d' = tasks d" and D: "outages d' = outages (d\<lparr>outages := tl (outages d)\<rparr>)"
    and C: "task_results d' = task_results d @
           [\<lparr>rr_task_id = taskId res, rr_success = success res, rr_data = res_data res,
             rr_error = res_error res, rr_duration = duration res,
             rr_attempts = res_attempts res, rr_created_at = now\<rparr>]"
    using saveTaskResult_upE [OF q(1) assms(2-4)] by metis
  have "True \<notin> set (outages d')" using D q(2) by simp
  from that [OF A B this C] show ?thesis .
qed

text \<open>A progress report outside 0..100 is rejected by the database.\<close>

lemma updateTaskStatus_bad_progress:
  assumes "next_query d = (True, d1)" and "find_task d i = Some r"
    and "ad_progress ad = Some p" and "p < 0 \<or> 100 < p"
  shows "\<exists>e. fst (updateTaskStatus d now i st ad) = Inl e"
proof -
  have "tasks d1 = tasks d" using next_query_tables [OF assms(1)] by simp
  then have f: "find_task d1 i = Some r" using assms(2) by (simp add: find_task_def)
  show ?thesis
    using assms(1,3,4) f
    by (auto simp: updateTaskStatus_def Let_def row_progress_set_columns)
qed

text \<open>
  The progress reports of an attempt change neither attempts nor max_retries, and leave
  the progress within its bounds, whether they all succeed or one of them throws.
\<close>

lemma report_progress_kept:
  assumes "True \<notin> set (outages d)" and "find_task d i = Some r"
    and "0 \<le> row_progress r" and "row_progress r \<le> 100"
  shows "\<exists>r'. True \<notin> set (outages (snd (report_progress d now i steps)))
      \<and> task_results (snd (report_progress d now i steps)) = task_results d
      \<and> find_task (snd (report_progress d now i steps)) i = Some r' \<and> kept r r'
      \<and> ((\<forall>p \<in> set steps. 0 \<le> p \<and> p \<le> 100) \<longrightarrow>
            fst (report_progress d now i steps) = Inr ())
      \<and> (\<not> (\<forall>p \<in> set steps. 0 \<le> p \<and> p \<le> 100) \<longrightarrow>
            (\<exists>e. fst (report_progress d now i steps) = Inl e))"
  using assms
proof (induction steps arbitrary: d r)
  case Nil
  then show ?case by (simp add: kept_def)
next
  case (Cons p ps)
  let ?ad = "no_data\<lparr>ad_progress := Some p\<rparr>"
  note q = next_query_answers [OF Cons.prems(1)]
  show ?case
  proof (cases "0 \<le> p \<and> p \<le> 100")
    case True
    have a: "in_int4 (case ad_attempts ?ad of None \<Rightarrow> 0 | Some n \<Rightarrow> n)"
      by (simp add: no_data_def in_int4_def)
    have lo: "0 \<le> (case ad_progress ?ad of None \<Rightarrow> row_progress r | Some p \<Rightarrow> p)"
      and hi: "(case ad_progress ?ad of None \<Rightarrow> row_progress r | Some p \<Rightarrow> p) \<le> 100"
      using True by simp_all
    obtain d1 where u: "updateTaskStatus d now i Active ?ad = (Inr (), d1)"
      and f1: "find_task d1 i = Some (set_columns now Active ?ad r)"
      and t1: "task_results d1 = task_results d" and o1: "True \<notin> set (outages d1)"
      using updateTaskStatus_okE [OF Cons.prems(1,2) a lo hi] by metis
    have p1: "0 \<le> row_progress (set_columns now Active ?ad r)"
      "row_progress (set_columns now Active ?ad r) \<le> 100"
      using True by (simp_all add: row_progress_set_columns)
    from Cons.IH [OF o1 f1 p1]
    obtain r' where "True \<notin> set (outages (snd (report_progress d1 now i ps)))"
      and "task_results (snd (report_progress d1 now i ps)) = task_results d1"
      and "find_task (snd (report_progress d1 now i ps)) i = Some r'"
      and "kept (set_columns now Active ?ad r) r'"
      and "(\<forall>p \<in> set ps. 0 \<le> p \<and> p \<le> 100) \<longrightarrow> fst (report_progress d1 now i ps) = Inr ()"
      and "\<not> (\<forall>p \<in> set ps. 0 \<le> p \<and> p \<le> 100) \<longrightarrow>
            (\<exists>e. fst (report_progress d1 now i ps) = Inl e)"
      by blast
    then show ?thesis
      using u t1 True by (auto simp: kept_def set_columns_def no_data_def)
  next
    case False
    then have bad: "p < 0 \<or> 100 < p" by auto
    have "ad_progress ?ad = Some p" by simp
    from updateTaskStatus_bad_progress [OF q(1) Cons.prems(2) this bad]
    obtain e where e: "fst (updateTaskStatus d now i Active ?ad) = Inl e" by blast
    note th = updateTaskStatus_throws [OF e]
    obtain d1 where u: "updateTaskStatus d now i Active ?ad = (Inl e, d1)"
      using e by (cases "updateTaskStatus d now i Active ?ad") simp
    have "tasks d1 = tasks d" "task_results d1 = task_results d" "outages d1 = tl (outages d)"
      using th(2-4) u by simp_all
    then have "find_task d1 i = Some r" "True \<notin> set (outages d1)" "task_results d1 = task_results d"
      using Cons.prems(2) q(2) by (simp_all add: find_task_def)
    then show ?thesis
      using u False Cons.prems(3,4) by (auto simp: kept_def)
  qed
qed

text \<open>The \<open>catch\<close> block when the database answers.\<close>

lemma on_error_ok:
  assumes "True \<notin> set (outages d)" and "find_task d (id_of (job_data job)) = Some r"
    and "0 \<le> row_progress r" and "row_progress r \<le> 100"
    and "in_int4 (int (attemptsMade job) + 1)" and "in_int4 (t1 - t0)"
  shows "\<exists>d'. on_error d t0 t1 job e = (Inl e, d') \<and> True \<notin> set (outages d')
      \<and> find_task d' (id_of (job_data job)) =
          Some (set_columns t1 Failed
                  (no_data\<lparr>ad_failedAt := Some t1, ad_error := Some (message e)\<rparr>) r)
      \<and> task_results d' = task_results d @
          [\<lparr>rr_task_id = id_of (job_data job), rr_success = False, rr_data = None,
            rr_error = Some (message e), rr_duration = t1 - t0,
            rr_attempts = int (attemptsMade job) + 1, rr_created_at = t1\<rparr>]"
proof -
  let ?i = "id_of (job_data job)"
  let ?ad = "no_data\<lparr>ad_failedAt := Some t1, ad_error := Some (message e)\<rparr>"
  let ?res = "\<lparr>taskId = ?i, success = False, res_data = None, res_error = Some (message e),
                duration = t1 - t0, res_attempts = int (attemptsMade job) + 1\<rparr>"
  have a: "in_int4 (case ad_attempts ?ad of None \<Rightarrow> 0 | Some n \<Rightarrow> n)"
    by (simp add: no_data_def in_int4_def)
  have lo: "0 \<le> (case ad_progress ?ad of None \<Rightarrow> row_progress r | Some p \<Rightarrow> p)"
    and hi: "(case ad_progress ?ad of None \<Rightarrow> row_progress r | Some p \<Rightarrow> p) \<le> 100"
    using assms(3,4) by (simp_all add: no_data_def)
  obtain d1 where u: "updateTaskStatus d t1 ?i Failed ?ad = (Inr (), d1)"
    and f1: "find_task d1 ?i = Some (set_columns t1 Failed ?ad r)"
    and t1: "task_results d1 = task_results d" and o1: "True \<notin> set (outages d1)"
    using updateTaskStatus_okE [OF assms(1,2) a lo hi] by metis
  have f1': "find_task d1 (taskId ?res) = Some (set_columns t1 Failed ?ad r)"
    using f1 by simp
  have du: "in_int4 (duration ?res)" and at: "in_int4 (res_attempts ?res)"
    using assms(5,6) by simp_all
  obtain d2 where sv: "saveTaskResult d1 t1 ?res = (Inr (), d2)"
    and ts: "tasks d2 = tasks d1" and o2: "True \<notin> set (outages d2)"
    and rs: "task_results d2 = task_results d1 @
           [\<lparr>rr_task_id = taskId ?res, rr_success = success ?res, rr_data = res_data ?res,
             rr_error = res_error ?res, rr_duration = duration ?res,
             rr_attempts = res_attempts ?res, rr_created_at = t1\<rparr>]"
    using saveTaskResult_okE [OF o1 f1' du at] by metis
  have "on_error d t0 t1 job e = (Inl e, d2)"
    using u sv by (simp add: on_error_def Let_def)
  moreover have "find_task d2 ?i = Some (set_columns t1 Failed ?ad r)"
    using f1 ts by (simp add: find_task_def)
  ultimately show ?thesis using o2 rs t1 by simp
qed

text \<open>The end of the \<open>try\<close> block when the database answers.\<close>

lemma on_success_ok:
  assumes "True \<notin> set (outages d)" and "find_task d (id_of (job_data job)) = Some r"
    and "0 \<le> row_progress r" and "row_progress r \<le> 100"
    and "in_int4 (int (attemptsMade job) + 1)" and "in_int4 (t1 - t0)"
  shows "\<exists>d'. on_success d t0 t1 job out =
        (Inr \<lparr>taskId = id_of (job_data job), success = True, res_data = Some out,
              res_error = None, duration = t1 - t0,
              res_attempts = int (attemptsMade job) + 1\<rparr>, d')
      \<and> True \<notin> set (outages d')
      \<and> find_task d' (id_of (job_data job)) =
          Some (set_columns t1 Completed
                  (no_data\<lparr>ad_completedAt := Some t1, ad_result := Some out\<rparr>) r)
      \<and> task_results d' = task_results d @
          [\<lparr>rr_task_id = id_of (job_data job), rr_success = True, rr_data = Some out,
            rr_error = None, rr_duration = t1 - t0,
            rr_attempts = int (attemptsMade job) + 1, rr_created_at = t1\<rparr>]"
proof -
  let ?i = "id_of (job_data job)"
  let ?ad = "no_data\<lparr>ad_completedAt := Some t1, ad_result := Some out\<rparr>"
  let ?res = "\<lparr>taskId = ?i, success = True, res_data = Some out, res_error = None,
                duration = t1 - t0, res_attempts = int (attemptsMade job) + 1\<rparr>"
  have a: "in_int4 (case ad_attempts ?ad of None \<Rightarrow> 0 | Some n \<Rightarrow> n)"
    by (simp add: no_data_def in_int4_def)
  have lo: "0 \<le> (case ad_progress ?ad of None \<Rightarrow> row_progress r | Some p \<Rightarrow> p)"
    and hi: "(case ad_progress ?ad of None \<Rightarrow> row_progress r | Some p \<Rightarrow> p) \<le> 100"
    using assms(3,4) by (simp_all add: no_data_def)
  obtain d1 where u: "updateTaskStatus d t1 ?i Completed ?ad = (Inr (), d1)"
    and f1: "find_task d1 ?i = Some (set_columns t1 Completed ?ad r)"
    and t1: "task_results d1 = task_results d" and o1: "True \<notin> set (outages d1)"
    using updateTaskStatus_okE [OF assms(1,2) a lo hi] by metis
  have f1': "find_task d1 (taskId ?res) = Some (set_columns t1 Completed ?ad r)"
    using f1 by simp
  have du: "in_int4 (duration ?res)" and at: "in_int4 (res_attempts ?res)"
    using assms(5,6) by simp_all
  obtain d2 where sv: "saveTaskResult d1 t1 ?res = (Inr (), d2)"
    and ts: "tasks d2 = tasks d1" and o2: "True \<notin> set (outages d2)"
    and rs: "task_results d2 = task_results d1 @
           [\<lparr>rr_task_id = taskId ?res, rr_success = success ?res, rr_data = res_data ?res,
             rr_error = res_error ?res, rr_duration = duration ?res,
             rr_attempts = res_attempts ?res, rr_created_at = t1\<rparr>]"
    using saveTaskResult_okE [OF o1 f1' du at] by metis
  have "on_success d t0 t1 job out = (Inr ?res, d2)"
    using u sv by (simp add: on_success_def Let_def)
  moreover have "find_task d2 ?i = Some (set_columns t1 Completed ?ad r)"
    using f1 ts by (simp add: find_task_def)
  ultimately show ?thesis using o2 rs t1 by simp
qed

text \<open>
  One attempt when the database answers every query: whatever the handler does, the row
  ends with the attempts of this attempt and its old max_retries; it is \<open>failed\<close>
  with a failure row when the handler throws, and \<open>completed\<close> with a success row
  when it returns.
\<close>

lemma process_answered:
  assumes "True \<notin> set (outages d)" and "find_task d (id_of (job_data job)) = Some r"
    and "0 \<le> row_progress r" and "row_progress r \<le> 100"
    and "in_int4 (int (attemptsMade job) + 1)" and "in_int4 (t1 - t0)"
  shows "\<exists>r'. find_task (snd (process d t0 t1 job before steps fails after out))
                 (id_of (job_data job)) = Some r'
      \<and> row_attempts r' = int (attemptsMade job) + 1 \<and> max_retries r' = max_retries r
      \<and> (\<forall>e. fst (process d t0 t1 job before steps fails after out) = Inl e \<longrightarrow>
            row_status r' = Failed
            \<and> task_results (snd (process d t0 t1 job before steps fails after out)) =
                task_results d @
                [\<lparr>rr_task_id = id_of (job_data job), rr_success = False, rr_data = None,
                  rr_error = Some (message e), rr_duration = t1 - t0,
                  rr_attempts = int (attemptsMade job) + 1, rr_created_at = t1\<rparr>])
      \<and> (\<forall>res. fst (process d t0 t1 job before steps fails after out) = Inr res \<longrightarrow>
            row_status r' = Completed
            \<and> task_results (snd (process d t0 t1 job before steps fails after out)) =
                task_results d @
                [\<lparr>rr_task_id = id_of (job_data job), rr_success = True, rr_data = Some out,
                  rr_error = None, rr_duration = t1 - t0,
                  rr_attempts = int (attemptsMade job) + 1, rr_created_at = t1\<rparr>])"
    (is "?Q (process d t0 t1 job before steps fails after out)")
proof -
  let ?i = "id_of (job_data job)"
  let ?ad = "no_data\<lparr>ad_startedAt := Some t0, ad_attempts := Some (int (attemptsMade job) + 1)\<rparr>"
  let ?r1 = "set_columns t0 Active ?ad r"
  have a: "in_int4 (case ad_attempts ?ad of None \<Rightarrow> 0 | Some n \<Rightarrow> n)"
    using assms(5) by simp
  have lo: "0 \<le> (case ad_progress ?ad of None \<Rightarrow> row_progress r | Some p \<Rightarrow> p)"
    and hi: "(case ad_progress ?ad of None \<Rightarrow> row_progress r | Some p \<Rightarrow> p) \<le> 100"
    using assms(3,4) by (simp_all add: no_data_def)
  obtain d1 where u: "updateTaskStatus d t0 ?i Active ?ad = (Inr (), d1)"
    and f1: "find_task d1 ?i = Some ?r1"
    and t1: "task_results d1 = task_results d" and o1: "True \<notin> set (outages d1)"
    using updateTaskStatus_okE [OF assms(1,2) a lo hi] by metis
  have p1: "0 \<le> row_progress ?r1" "row_progress ?r1 \<le> 100"
    using assms(3,4) by (simp_all add: row_progress_set_columns no_data_def)
  have k1: "row_attempts ?r1 = int (attemptsMade job) + 1" "max_retries ?r1 = max_retries r"
    by (simp_all add: set_columns_fields)
  obtain rs d2 where rp: "report_progress d1 t0 ?i steps = (rs, d2)"
    by (cases "report_progress d1 t0 ?i steps")
  from report_progress_kept [OF o1 f1 p1, of t0 steps] rp
  obtain r2 where o2: "True \<notin> set (outages d2)" and t2: "task_results d2 = task_results d1"
    and f2: "find_task d2 ?i = Some r2" and k: "kept ?r1 r2" by auto
  from k have p2: "0 \<le> row_progress r2" "row_progress r2 \<le> 100"
    and k2: "row_attempts r2 = int (attemptsMade job) + 1" "max_retries r2 = max_retries r"
    using k1 by (simp_all add: kept_def)
  have e1: "?Q (on_error d1 t0 t1 job e)" for e
  proof -
    from on_error_ok [OF o1 f1 p1 assms(5,6), of e]
    obtain d' where x: "on_error d1 t0 t1 job e = (Inl e, d')"
      and f: "find_task d' ?i = Some (set_columns t1 Failed
                  (no_data\<lparr>ad_failedAt := Some t1, ad_error := Some (message e)\<rparr>) ?r1)"
      and t: "task_results d' = task_results d1 @
          [\<lparr>rr_task_id = ?i, rr_success = False, rr_data = None,
            rr_error = Some (message e), rr_duration = t1 - t0,
            rr_attempts = int (attemptsMade job) + 1, rr_created_at = t1\<rparr>]" by blast
    show ?thesis
      unfolding x using f t t1 k1 by (simp add: set_columns_fields no_data_def)
  qed
  have e2: "?Q (on_error d2 t0 t1 job e)" for e
  proof -
    from on_error_ok [OF o2 f2 p2 assms(5,6), of e]
    obtain d' where x: "on_error d2 t0 t1 job e = (Inl e, d')"
      and f: "find_task d' ?i = Some (set_columns t1 Failed
                  (no_data\<lparr>ad_failedAt := Some t1, ad_error := Some (message e)\<rparr>) r2)"
      and t: "task_results d' = task_results d2 @
          [\<lparr>rr_task_id = ?i, rr_success = False, rr_data = None,
            rr_error = Some (message e), rr_duration = t1 - t0,
            rr_attempts = int (attemptsMade job) + 1, rr_created_at = t1\<rparr>]" by blast
    show ?thesis
      unfolding x using f t t1 t2 k2 by (simp add: set_columns_fields no_data_def)
  qed
  have s2: "?Q (on_success d2 t0 t1 job out)"
  proof -
    from on_success_ok [OF o2 f2 p2 assms(5,6), of out]
    obtain d' where x: "on_success d2 t0 t1 job out =
        (Inr \<lparr>taskId = ?i, success = True, res_data = Some out, res_error = None,
              duration = t1 - t0, res_attempts = int (attemptsMade job) + 1\<rparr>, d')"
      and f: "find_task d' ?i = Some (set_columns t1 Completed
                  (no_data\<lparr>ad_completedAt := Some t1, ad_result := Some out\<rparr>) r2)"
      and t: "task_results d' = task_results d2 @
          [\<lparr>rr_task_id = ?i, rr_success = True, rr_data = Some out,
            rr_error = None, rr_duration = t1 - t0,
            rr_attempts = int (attemptsMade job) + 1, rr_created_at = t1\<rparr>]" by blast
    show ?thesis
      unfolding x using f t t1 t2 k2 by (simp add: set_columns_fields no_data_def)
  qed
  have eq: "process d t0 t1 job before steps fails after out =
      (case before of
         Inl e \<Rightarrow> on_error d1 t0 t1 job e
       | Inr u' \<Rightarrow>
           (case rs of
              Inl e \<Rightarrow> on_error d2 t0 t1 job e
            | Inr v \<Rightarrow>
                (case fails of
                   Some m \<Rightarrow> on_error d2 t0 t1 job (HandlerError m)
                 | None \<Rightarrow>
                     (case after of
                        Inl e \<Rightarrow> on_error d2 t0 t1 job e
                      | Inr v' \<Rightarrow> on_success d2 t0 t1 job out))))"
    by (simp add: process_def u simulate_def rp split: sum.splits option.splits)
  show ?thesis
    unfolding eq
    by (cases before; cases rs; cases fails; cases after)
       (simp_all only: sum.case option.case e1 e2 s2)
qed

text \<open>How such an attempt ends, by what the handler meets first.\<close>

lemma process_result:
  assumes "True \<notin> set (outages d)" and "find_task d (id_of (job_data job)) = Some r"
    and "0 \<le> row_progress r" and "row_progress r \<le> 100"
    and "in_int4 (int (attemptsMade job) + 1)" and "in_int4 (t1 - t0)"
  shows "before = Inl e \<Longrightarrow> fst (process d t0 t1 job before steps fails after out) = Inl e"
    and "before = Inr () \<Longrightarrow> \<forall>p \<in> set steps. 0 \<le> p \<and> p \<le> 100 \<Longrightarrow> fails = Some m \<Longrightarrow>
         fst (process d t0 t1 job before steps fails after out) = Inl (HandlerError m)"
    and "before = Inr () \<Longrightarrow> \<forall>p \<in> set steps. 0 \<le> p \<and> p \<le> 100 \<Longrightarrow> fails = None \<Longrightarrow>
         after = Inl e \<Longrightarrow> fst (process d t0 t1 job before steps fails after out) = Inl e"
    and "before = Inr () \<Longrightarrow> \<forall>p \<in> set steps. 0 \<le> p \<and> p \<le> 100 \<Longrightarrow> fails = None \<Longrightarrow>
         after = Inr () \<Longrightarrow>
         fst (process d t0 t1 job before steps fails after out) =
           Inr \<lparr>taskId = id_of (job_data job), success = True, res_data = Some out,
                res_error = None, duration = t1 - t0,
                res_attempts = int (attemptsMade job) + 1\<rparr>"
    and "before = Inr () \<Longrightarrow> \<not> (\<forall>p \<in> set steps. 0 \<le> p \<and> p \<le> 100) \<Longrightarrow>
         \<exists>e'. fst (process d t0 t1 job before steps fails after out) = Inl e'"
proof -
  let ?i = "id_of (job_data job)"
  let ?ad = "no_data\<lparr>ad_startedAt := Some t0, ad_attempts := Some (int (attemptsMade job) + 1)\<rparr>"
  let ?r1 = "set_columns t0 Active ?ad r"
  have a: "in_int4 (case ad_attempts ?ad of None \<Rightarrow> 0 | Some n \<Rightarrow> n)"
    using assms(5) by simp
  have lo: "0 \<le> (case ad_progress ?ad of None \<Rightarrow> row_progress r | Some p \<Rightarrow> p)"
    and hi: "(case ad_progress ?ad of None \<Rightarrow> row_progress r | Some p \<Rightarrow> p) \<le> 100"
    using assms(3,4) by (simp_all add: no_data_def)
  obtain d1 where u: "updateTaskStatus d t0 ?i Active ?ad = (Inr (), d1)"
    and f1: "find_task d1 ?i = Some ?r1"
    and o1: "True \<notin> set (outages d1)"
    using updateTaskStatus_okE [OF assms(1,2) a lo hi] by metis
  have p1: "0 \<le> row_progress ?r1" "row_progress ?r1 \<le> 100"
    using assms(3,4) by (simp_all add: row_progress_set_columns no_data_def)
  obtain rs d2 where rp: "report_progress d1 t0 ?i steps = (rs, d2)"
    by (cases "report_progress d1 t0 ?i steps")
  from report_progress_kept [OF o1 f1 p1, of t0 steps] rp
  obtain r2 where o2: "True \<notin> set (outages d2)"
    and f2: "find_task d2 ?i = Some r2" and k: "kept ?r1 r2"
    and good: "(\<forall>p \<in> set steps. 0 \<le> p \<and> p \<le> 100) \<longrightarrow> rs = Inr ()"
    and bad: "\<not> (\<forall>p \<in> set steps. 0 \<le> p \<and> p \<le> 100) \<longrightarrow> (\<exists>e. rs = Inl e)" by auto
  from k have p2: "0 \<le> row_progress r2" "row_progress r2 \<le> 100" by (simp_all add: kept_def)
  have e1: "fst (on_error d1 t0 t1 job x) = Inl x" for x
    using on_error_ok [OF o1 f1 p1 assms(5,6), of x] by auto
  have e2: "fst (on_error d2 t0 t1 job x) = Inl x" for x
    using on_error_ok [OF o2 f2 p2 assms(5,6), of x] by auto
  have s2: "fst (on_success d2 t0 t1 job out) =
           Inr \<lparr>taskId = ?i, success = True, res_data = Some out,
                res_error = None, duration = t1 - t0,
                res_attempts = int (attemptsMade job) + 1\<rparr>"
    using on_success_ok [OF o2 f2 p2 assms(5,6), of out] by auto
  show "before = Inl e \<Longrightarrow> fst (process d t0 t1 job before steps fails after out) = Inl e"
    by (simp add: process_def u e1)
  show "before = Inr () \<Longrightarrow> \<forall>p \<in> set steps. 0 \<le> p \<and> p \<le> 100 \<Longrightarrow> fails = Some m \<Longrightarrow>
         fst (process d t0 t1 job before steps fails after out) = Inl (HandlerError m)"
    using good by (simp add: process_def u simulate_def rp e2)
  show "before = Inr () \<Longrightarrow> \<forall>p \<in> set steps. 0 \<le> p \<and> p \<le> 100 \<Longrightarrow> fails = None \<Longrightarrow>
         after = Inl e \<Longrightarrow> fst (process d t0 t1 job before steps fails after out) = Inl e"
    using good by (simp add: process_def u simulate_def rp e2)
  show "before = Inr () \<Longrightarrow> \<forall>p \<in> set steps. 0 \<le> p \<and> p \<le> 100 \<Longrightarrow> fails = None \<Longrightarrow>
         after = Inr () \<Longrightarrow>
         fst (process d t0 t1 job before steps fails after out) =
           Inr \<lparr>taskId = id_of (job_data job), success = True, res_data = Some out,
                res_error = None, duration = t1 - t0,
                res_attempts = int (attemptsMade job) + 1\<rparr>"
    using good by (simp add: process_def u simulate_def rp s2)
  show "before = Inr () \<Longrightarrow> \<not> (\<forall>p \<in> set steps. 0 \<le> p \<and> p \<le> 100) \<Longrightarrow>
         \<exists>e'. fst (process d t0 t1 job before steps fails after out) = Inl e'"
    using bad by (auto simp: process_def u simulate_def rp e2)
qed

lemma no_dead_status: "status_text st \<noteq> ''dead''"
  by (cases st) simp_all

subsection \<open>The payload and the progress of the handlers\<close>

text \<open>
  The five steps of a data export, and a step at which the double differs from the exact
  quotient: with 40 operations the 23rd report is 57, where \<open>23 / 40 * 100\<close> is 57.5.
\<close>

lemma progress_steps_export: "progress_steps 5 = [20, 40, 60, 80, 100]"
  by code_simp

lemma progress_steps_rounding: "progress_steps 40 ! 22 = 57"
proof -
  have "js_round (binary64 (binary64 (23 / 40) * 100)) = 57" by code_simp
  then show ?thesis by (simp add: progress_steps_def)
qed

lemma operations_length_array:
  "operations_length to_number (JObj [(''imagePath'', p), (''operations'', JArr xs), (''outputPath'', q)]) =
     Inr (Some (of_nat (length xs)))"
  by (simp add: operations_length_def)

lemma operations_length_missing:
  "operations_length to_number (JObj [(''imagePath'', p), (''outputPath'', q)]) = Inl TypeError"
  by (simp add: operations_length_def)

text \<open>
  An email task whose payload has no \<open>to\<close>: the work is done, reading
  \<open>data.to.length\<close> for the result throws, and the attempt fails.
\<close>

lemma email_without_recipients:
  assumes "True \<notin> set (outages d)" and "find_task d (id_of (job_data job)) = Some r"
    and "0 \<le> row_progress r" and "row_progress r \<le> 100"
    and "in_int4 (int (attemptsMade job) + 1)" and "in_int4 (t1 - t0)"
    and "data (job_data job) = JObj kvs" and "map_of kvs ''to'' = None"
  shows "fst (processEmailNotification d t0 t1 job None out) = Inl TypeError"
  unfolding processEmailNotification_def
  by (rule process_result(3) [OF assms(1-6)]) (simp_all add: assms(7,8) thrown_def)

text \<open>An image task whose payload has no \<open>operations\<close> fails before any work.\<close>

lemma image_without_operations:
  assumes "True \<notin> set (outages d)" and "find_task d (id_of (job_data job)) = Some r"
    and "0 \<le> row_progress r" and "row_progress r \<le> 100"
    and "in_int4 (int (attemptsMade job) + 1)" and "in_int4 (t1 - t0)"
    and "data (job_data job) = JObj kvs" and "map_of kvs ''operations'' = None"
  shows "fst (processImageProcessing to_number d t0 t1 job fails out) = Inl TypeError"
proof -
  have "operations_length to_number (data (job_data job)) = Inl TypeError"
    by (simp add: operations_length_def assms(7,8))
  then show ?thesis
    by (simp add: processImageProcessing_def process_result(1) [OF assms(1-6)])
qed

subsection \<open>A failed attempt\<close>

text \<open>
  Claim C1, as amended. Take an attempt of a stored job such that no query of the
  database fails from its start on (the attempt number and the duration fitting an
  INTEGER, the stored progress within 0 and 100). If the attempt
  fails, that is, if the handler throws, whatever made it throw, the stored status after
  it is \<open>failed\<close> and the stored attempts is the broker's \<open>attemptsMade + 1\<close>, with
  max_retries as it was: the two are never compared, and no status has the text
  \<open>dead\<close>. The handler throws when reading the payload throws, when the simulated work
  fails after progress reports within 0..100, and when reading the payload for the
  result throws. This holds for the six handlers, which are instances of \<open>process\<close>.
\<close>

theorem failed_attempt_is_stored_as_failed:
  assumes "True \<notin> set (outages d)" and "find_task d (id_of (job_data job)) = Some r"
    and "0 \<le> row_progress r" and "row_progress r \<le> 100"
    and "in_int4 (int (attemptsMade job) + 1)" and "in_int4 (t1 - t0)"
  shows "(\<forall>e. fst (process d t0 t1 job before steps fails after out) = Inl e \<longrightarrow>
           attempt_record (snd (process d t0 t1 job before steps fails after out))
               (id_of (job_data job)) =
             Some (''failed'', int (attemptsMade job) + 1, max_retries r))
    \<and> (\<forall>e. before = Inl e \<longrightarrow>
           fst (process d t0 t1 job before steps fails after out) = Inl e)
    \<and> (\<forall>m. before = Inr () \<and> (\<forall>p \<in> set steps. 0 \<le> p \<and> p \<le> 100) \<and> fails = Some m \<longrightarrow>
           fst (process d t0 t1 job before steps fails after out) = Inl (HandlerError m))
    \<and> (\<forall>e. before = Inr () \<and> (\<forall>p \<in> set steps. 0 \<le> p \<and> p \<le> 100) \<and> fails = None
            \<and> after = Inl e \<longrightarrow>
           fst (process d t0 t1 job before steps fails after out) = Inl e)
    \<and> (\<forall>st. status_text st \<noteq> ''dead'')"
proof -
  from process_answered [OF assms, of before steps fails after out]
  obtain r' where f: "find_task (snd (process d t0 t1 job before steps fails after out))
                 (id_of (job_data job)) = Some r'"
    and n: "row_attempts r' = int (attemptsMade job) + 1" and m: "max_retries r' = max_retries r"
    and s: "\<forall>e. fst (process d t0 t1 job before steps fails after out) = Inl e \<longrightarrow>
            row_status r' = Failed" by blast
  have "\<forall>e. fst (process d t0 t1 job before steps fails after out) = Inl e \<longrightarrow>
           attempt_record (snd (process d t0 t1 job before steps fails after out))
               (id_of (job_data job)) =
             Some (''failed'', int (attemptsMade job) + 1, max_retries r)"
    using f n m s by (simp add: attempt_record_def)
  moreover have "\<forall>e. before = Inl e \<longrightarrow>
           fst (process d t0 t1 job before steps fails after out) = Inl e"
    using process_result(1) [OF assms] by blast
  moreover have "\<forall>m. before = Inr () \<and> (\<forall>p \<in> set steps. 0 \<le> p \<and> p \<le> 100) \<and> fails = Some m \<longrightarrow>
           fst (process d t0 t1 job before steps fails after out) = Inl (HandlerError m)"
    using process_result(2) [OF assms] by blast
  moreover have "\<forall>e. before = Inr () \<and> (\<forall>p \<in> set steps. 0 \<le> p \<and> p \<le> 100) \<and> fails = None
            \<and> after = Inl e \<longrightarrow>
           fst (process d t0 t1 job before steps fails after out) = Inl e"
    using process_result(3) [OF assms] by blast
  ultimately show ?thesis using no_dead_status by blast
qed

lemma api_system_eq:
  "api_system =
     \<lparr>sys_db = \<lparr>tasks =
          [\<lparr>row_id = ''t1'', row_type = api_integration, row_priority = 5, row_data = api_data,
            row_status = Waiting, created_at = Some 1000, updated_at = Some 1000,
            started_at = None, completed_at = None, failed_at = None, row_attempts = 0,
            max_retries = 3, row_progress = 0, row_result = None, row_error = None\<rparr>],
        task_results = [], outages = []\<rparr>,
      sys_queues = put_queue api_integration (new_queue\<lparr>q_waiting := [api_job]\<rparr>) initializeQueues\<rparr>"
  by (simp add: api_system_def post_tasks_def api_request_def parse_type_def task_types_def
      addTask_def Let_def createTask_def next_query_def fresh_system_def empty_db_def
      find_task_def initializeQueues_def queue_add_def new_queue_def jobOptions_def
      put_queue_def api_job_def in_int4_def)

lemma api_after4_eq:
  "api_after4 =
     \<lparr>tasks =
          [\<lparr>row_id = ''t1'', row_type = api_integration, row_priority = 5, row_data = api_data,
            row_status = Failed, created_at = Some 1000, updated_at = Some 3000,
            started_at = Some 2000, completed_at = None, failed_at = Some 3000, row_attempts = 4,
            max_retries = 3, row_progress = 0, row_result = None,
            row_error = Some ''API call failed''\<rparr>],
        task_results =
          [\<lparr>rr_task_id = ''t1'', rr_success = False, rr_data = None,
            rr_error = Some ''API call failed'', rr_duration = 1000, rr_attempts = 4,
            rr_created_at = 3000\<rparr>],
        outages = []\<rparr>"
  by (simp add: api_after4_def api_system_eq processApiIntegration_def process_def
      updateTaskStatus_def next_query_def find_task_def set_columns_def no_data_def
      simulate_def on_error_def saveTaskResult_def Let_def id_of_def api_job_def
      in_int4_def thrown_def api_data_def)

lemma api_after5_eq:
  "api_after5 =
     \<lparr>tasks =
          [\<lparr>row_id = ''t1'', row_type = api_integration, row_priority = 5, row_data = api_data,
            row_status = Failed, created_at = Some 1000, updated_at = Some 5000,
            started_at = Some 4000, completed_at = None, failed_at = Some 5000, row_attempts = 5,
            max_retries = 3, row_progress = 0, row_result = None,
            row_error = Some ''API call failed''\<rparr>],
        task_results =
          [\<lparr>rr_task_id = ''t1'', rr_success = False, rr_data = None,
            rr_error = Some ''API call failed'', rr_duration = 1000, rr_attempts = 4,
            rr_created_at = 3000\<rparr>,
           \<lparr>rr_task_id = ''t1'', rr_success = False, rr_data = None,
            rr_error = Some ''API call failed'', rr_duration = 1000, rr_attempts = 5,
            rr_created_at = 5000\<rparr>],
        outages = []\<rparr>"
  by (simp add: api_after5_def api_after4_eq processApiIntegration_def process_def
      updateTaskStatus_def next_query_def find_task_def set_columns_def no_data_def
      simulate_def on_error_def saveTaskResult_def Let_def id_of_def api_job_def
      in_int4_def thrown_def api_data_def)

text \<open>
  Claim C1 as stated fails. The API queue is configured with five attempts and the row of
  the task has max_retries 3. After the fourth attempt has failed, attempts is
  \<open>max_retries + 1\<close> and the status is \<open>failed\<close>, not \<open>dead\<close>; the job is retried,
  and after the fifth attempt has failed, attempts is 5, above \<open>max_retries + 1\<close>.
\<close>

theorem attempts_and_dead_counterexample:
  "map_option q_waiting (map_of (sys_queues api_system) api_integration) = Some [api_job]
   \<and> jo_attempts (opts api_job) = 5
   \<and> attempt_record (sys_db api_system) ''t1'' = Some (''waiting'', 0, 3)
   \<and> fst (processApiIntegration (sys_db api_system) 2000 3000 (api_job\<lparr>attemptsMade := 3\<rparr>)
            (Some ''API call failed'') ''{}'') = Inl (HandlerError ''API call failed'')
   \<and> attempt_record api_after4 ''t1'' = Some (''failed'', 4, 3)
   \<and> map_option (attempts_invariant True) (attempt_record api_after4 ''t1'') = Some False
   \<and> retried (api_job\<lparr>attemptsMade := 3\<rparr>)
   \<and> attempt_record api_after5 ''t1'' = Some (''failed'', 5, 3)
   \<and> map_option (attempts_invariant True) (attempt_record api_after5 ''t1'') = Some False"
  by (simp add: api_after4_eq api_after5_eq attempt_record_def find_task_def
      attempts_invariant_def)
     (simp add: api_system_eq put_queue_def initializeQueues_def task_types_def new_queue_def
      processApiIntegration_def process_def
      updateTaskStatus_def next_query_def find_task_def set_columns_def no_data_def
      simulate_def on_error_def saveTaskResult_def Let_def id_of_def api_job_def
      in_int4_def thrown_def api_data_def retried_def)

theorem failed_attempt_is_stored_as_failed_witness:
  "True \<notin> set (outages (sys_db api_system))
   \<and> map_option row_progress (find_task (sys_db api_system) (id_of (job_data api_job))) = Some 0
   \<and> in_int4 (int (attemptsMade (api_job\<lparr>attemptsMade := 3\<rparr>)) + 1) \<and> in_int4 (3000 - 2000)
   \<and> fst (process (sys_db api_system) 2000 3000 (api_job\<lparr>attemptsMade := 3\<rparr>) (Inr ()) []
            (Some ''API call failed'') (Inr ()) ''{}'') = Inl (HandlerError ''API call failed'')
   \<and> attempt_record (snd (process (sys_db api_system) 2000 3000 (api_job\<lparr>attemptsMade := 3\<rparr>)
            (Inr ()) [] (Some ''API call failed'') (Inr ()) ''{}'')) ''t1'' = Some (''failed'', 4, 3)
   \<and> fst (process (sys_db api_system) 2000 3000 (api_job\<lparr>attemptsMade := 3\<rparr>) (Inl TypeError) []
            None (Inr ()) ''{}'') = Inl TypeError
   \<and> attempt_record (snd (process (sys_db api_system) 2000 3000 (api_job\<lparr>attemptsMade := 3\<rparr>)
            (Inl TypeError) [] None (Inr ()) ''{}'')) ''t1'' = Some (''failed'', 4, 3)
   \<and> fst (process (sys_db api_system) 2000 3000 (api_job\<lparr>attemptsMade := 3\<rparr>) (Inr ()) []
            None (Inl TypeError) ''{}'') = Inl TypeError
   \<and> attempt_record (snd (process (sys_db api_system) 2000 3000 (api_job\<lparr>attemptsMade := 3\<rparr>)
            (Inr ()) [] None (Inl TypeError) ''{}'')) ''t1'' = Some (''failed'', 4, 3)"
  using failed_attempt_is_stored_as_failed [of "sys_db api_system" "api_job\<lparr>attemptsMade := 3\<rparr>"
      "\<lparr>row_id = ''t1'', row_type = api_integration, row_priority = 5, row_data = api_data,
            row_status = Waiting, created_at = Some 1000, updated_at = Some 1000,
            started_at = None, completed_at = None, failed_at = None, row_attempts = 0,
            max_retries = 3, row_progress = 0, row_result = None, row_error = None\<rparr>"
      3000 2000 "Inr ()" "[]" "Some ''API call failed''" "Inr ()" "''{}''"]
    failed_attempt_is_stored_as_failed [of "sys_db api_system" "api_job\<lparr>attemptsMade := 3\<rparr>"
      "\<lparr>row_id = ''t1'', row_type = api_integration, row_priority = 5, row_data = api_data,
            row_status = Waiting, created_at = Some 1000, updated_at = Some 1000,
            started_at = None, completed_at = None, failed_at = None, row_attempts = 0,
            max_retries = 3, row_progress = 0, row_result = None, row_error = None\<rparr>"
      3000 2000 "Inl TypeError" "[]" None "Inr ()" "''{}''"]
    failed_attempt_is_stored_as_failed [of "sys_db api_system" "api_job\<lparr>attemptsMade := 3\<rparr>"
      "\<lparr>row_id = ''t1'', row_type = api_integration, row_priority = 5, row_data = api_data,
            row_status = Waiting, created_at = Some 1000, updated_at = Some 1000,
            started_at = None, completed_at = None, failed_at = None, row_attempts = 0,
            max_retries = 3, row_progress = 0, row_result = None, row_error = None\<rparr>"
      3000 2000 "Inr ()" "[]" None "Inl TypeError" "''{}''"]
  by (simp add: api_system_eq find_task_def id_of_def api_job_def in_int4_def)

subsection \<open>The two writes of one attempt\<close>

text \<open>The status update succeeds and the result row fails.\<close>

lemma update_then_failed_append:
  assumes "find_task d i = Some r"
    and "in_int4 (case ad_attempts ad of None \<Rightarrow> 0 | Some n \<Rightarrow> n)"
    and "0 \<le> (case ad_progress ad of None \<Rightarrow> row_progress r | Some p \<Rightarrow> p)"
    and "(case ad_progress ad of None \<Rightarrow> row_progress r | Some p \<Rightarrow> p) \<le> 100"
    and "outages d = False # True # rest"
  shows "\<exists>d1 d2. updateTaskStatus d now i st ad = (Inr (), d1)
      \<and> saveTaskResult d1 now res = (Inl QueryFailed, d2)
      \<and> find_task d2 i = Some (set_columns now st ad r)
      \<and> task_results d2 = task_results d \<and> outages d2 = rest"
proof -
  have q: "next_query d = (True, d\<lparr>outages := True # rest\<rparr>)"
    using assms(5) by (rule next_query_up)
  obtain d1 where u: "updateTaskStatus d now i st ad = (Inr (), d1)"
    and f: "find_task d1 i = Some (set_columns now st ad r)"
    and t: "task_results d1 = task_results d"
    and o: "outages d1 = outages (d\<lparr>outages := True # rest\<rparr>)"
    using updateTaskStatus_upE [OF q assms(1-4)] by metis
  have o': "outages d1 = True # rest" using o by simp
  have q1: "next_query d1 = (False, d1\<lparr>outages := rest\<rparr>)"
    using o' by (rule next_query_down)
  have sv: "saveTaskResult d1 now res = (Inl QueryFailed, d1\<lparr>outages := rest\<rparr>)"
    using q1 by (rule saveTaskResult_outage)
  have "find_task (d1\<lparr>outages := rest\<rparr>) i = Some (set_columns now st ad r)"
    using f by (simp add: find_task_def)
  moreover have "task_results (d1\<lparr>outages := rest\<rparr>) = task_results d" using t by simp
  moreover have "outages (d1\<lparr>outages := rest\<rparr>) = rest" by simp
  ultimately show ?thesis using u sv by blast
qed

lemma on_error_append_fails:
  assumes "find_task d (id_of (job_data job)) = Some r"
    and "0 \<le> row_progress r" and "row_progress r \<le> 100"
    and "outages d = False # True # rest"
  shows "\<exists>d2. on_error d t0 t1 job e = (Inl QueryFailed, d2)
      \<and> find_task d2 (id_of (job_data job)) =
          Some (set_columns t1 Failed
                  (no_data\<lparr>ad_failedAt := Some t1, ad_error := Some (message e)\<rparr>) r)
      \<and> task_results d2 = task_results d \<and> outages d2 = rest"
proof -
  let ?i = "id_of (job_data job)"
  let ?ad = "no_data\<lparr>ad_failedAt := Some t1, ad_error := Some (message e)\<rparr>"
  let ?res = "\<lparr>taskId = ?i, success = False, res_data = None, res_error = Some (message e),
                duration = t1 - t0, res_attempts = int (attemptsMade job) + 1\<rparr>"
  have a: "in_int4 (case ad_attempts ?ad of None \<Rightarrow> 0 | Some n \<Rightarrow> n)"
    by (simp add: no_data_def in_int4_def)
  have lo: "0 \<le> (case ad_progress ?ad of None \<Rightarrow> row_progress r | Some p \<Rightarrow> p)"
    and hi: "(case ad_progress ?ad of None \<Rightarrow> row_progress r | Some p \<Rightarrow> p) \<le> 100"
    using assms(2,3) by (simp_all add: no_data_def)
  from update_then_failed_append [OF assms(1) a lo hi assms(4), of t1 Failed ?res]
  obtain d1 d2 where "updateTaskStatus d t1 ?i Failed ?ad = (Inr (), d1)"
    and "saveTaskResult d1 t1 ?res = (Inl QueryFailed, d2)"
    and "find_task d2 ?i = Some (set_columns t1 Failed ?ad r)"
    and "task_results d2 = task_results d" and "outages d2 = rest" by blast
  then show ?thesis by (simp add: on_error_def Let_def)
qed

lemma on_success_append_fails:
  assumes "find_task d (id_of (job_data job)) = Some r"
    and "0 \<le> row_progress r" and "row_progress r \<le> 100"
    and "outages d = False # True # rest"
  shows "\<exists>d2. on_success d t0 t1 job out = on_error d2 t0 t1 job QueryFailed
      \<and> find_task d2 (id_of (job_data job)) =
          Some (set_columns t1 Completed
                  (no_data\<lparr>ad_completedAt := Some t1, ad_result := Some out\<rparr>) r)
      \<and> task_results d2 = task_results d \<and> outages d2 = rest"
proof -
  let ?i = "id_of (job_data job)"
  let ?ad = "no_data\<lparr>ad_completedAt := Some t1, ad_result := Some out\<rparr>"
  let ?res = "\<lparr>taskId = ?i, success = True, res_data = Some out, res_error = None,
                duration = t1 - t0, res_attempts = int (attemptsMade job) + 1\<rparr>"
  have a: "in_int4 (case ad_attempts ?ad of None \<Rightarrow> 0 | Some n \<Rightarrow> n)"
    by (simp add: no_data_def in_int4_def)
  have lo: "0 \<le> (case ad_progress ?ad of None \<Rightarrow> row_progress r | Some p \<Rightarrow> p)"
    and hi: "(case ad_progress ?ad of None \<Rightarrow> row_progress r | Some p \<Rightarrow> p) \<le> 100"
    using assms(2,3) by (simp_all add: no_data_def)
  from update_then_failed_append [OF assms(1) a lo hi assms(4), of t1 Completed ?res]
  obtain d1 d2 where u: "updateTaskStatus d t1 ?i Completed ?ad = (Inr (), d1)"
    and sv: "saveTaskResult d1 t1 ?res = (Inl QueryFailed, d2)"
    and f: "find_task d2 ?i = Some (set_columns t1 Completed ?ad r)"
    and t: "task_results d2 = task_results d" and o: "outages d2 = rest" by blast
  have "on_success d t0 t1 job out = on_error d2 t0 t1 job QueryFailed"
    using u sv by (simp add: on_success_def Let_def)
  then show ?thesis using f t o by blast
qed

lemma on_error_outage:
  assumes "outages d = True # rest"
  shows "on_error d t0 t1 job e = (Inl QueryFailed, d\<lparr>outages := rest\<rparr>)"
  by (simp add: on_error_def Let_def updateTaskStatus_outage [OF next_query_down [OF assms]])

text \<open>
  Claim C4, as amended. The status update and the result row of one attempt are two
  statements, each committed on its own, the update first; there is no transaction around
  them. On failure of the attempt (the \<open>catch\<close> block): when no query fails, the status
  is \<open>failed\<close> and a failure row is written; when the update succeeds and the insert
  fails, the status stays \<open>failed\<close> and no row is written; when the update fails,
  nothing is written. On completion: when no query fails, the status is \<open>completed\<close>
  and a success row is written; when the update succeeds and the insert fails, the status
  \<open>completed\<close> is committed without a row, and the \<open>catch\<close> block then issues its
  own two statements: if its update fails too, the job stays \<open>completed\<close> without a
  row; if its update succeeds, the job ends \<open>failed\<close>, with a failure row when the
  second insert succeeds and with no row when it fails. (The attempt number and the
  duration fit an INTEGER, and the stored progress is within 0 and 100.)
\<close>

theorem status_update_survives_failed_append:
  assumes "find_task d (id_of (job_data job)) = Some r"
    and "0 \<le> row_progress r" and "row_progress r \<le> 100"
    and "in_int4 (int (attemptsMade job) + 1)" and "in_int4 (t1 - t0)"
  shows "(True \<notin> set (outages d) \<longrightarrow>
            fst (on_error d t0 t1 job e) = Inl e
            \<and> map_option row_status (find_task (snd (on_error d t0 t1 job e)) (id_of (job_data job)))
                = Some Failed
            \<and> map (\<lambda>x. (rr_task_id x, rr_success x)) (task_results (snd (on_error d t0 t1 job e))) =
                map (\<lambda>x. (rr_task_id x, rr_success x)) (task_results d) @ [(id_of (job_data job), False)])
       \<and> (outages d = False # True # rest \<longrightarrow>
            fst (on_error d t0 t1 job e) = Inl QueryFailed
            \<and> map_option row_status (find_task (snd (on_error d t0 t1 job e)) (id_of (job_data job)))
                = Some Failed
            \<and> task_results (snd (on_error d t0 t1 job e)) = task_results d)
       \<and> (outages d = True # rest \<longrightarrow>
            on_error d t0 t1 job e = (Inl QueryFailed, d\<lparr>outages := rest\<rparr>))
       \<and> (True \<notin> set (outages d) \<longrightarrow>
            fst (on_success d t0 t1 job out) =
              Inr \<lparr>taskId = id_of (job_data job), success = True, res_data = Some out,
                   res_error = None, duration = t1 - t0,
                   res_attempts = int (attemptsMade job) + 1\<rparr>
            \<and> map_option row_status (find_task (snd (on_success d t0 t1 job out)) (id_of (job_data job)))
                = Some Completed
            \<and> map (\<lambda>x. (rr_task_id x, rr_success x)) (task_results (snd (on_success d t0 t1 job out))) =
                map (\<lambda>x. (rr_task_id x, rr_success x)) (task_results d) @ [(id_of (job_data job), True)])
       \<and> (outages d = False # True # True # rest \<longrightarrow>
            fst (on_success d t0 t1 job out) = Inl QueryFailed
            \<and> map_option row_status (find_task (snd (on_success d t0 t1 job out)) (id_of (job_data job)))
                = Some Completed
            \<and> task_results (snd (on_success d t0 t1 job out)) = task_results d)
       \<and> (outages d = False # True # rest \<and> True \<notin> set rest \<longrightarrow>
            fst (on_success d t0 t1 job out) = Inl QueryFailed
            \<and> map_option row_status (find_task (snd (on_success d t0 t1 job out)) (id_of (job_data job)))
                = Some Failed
            \<and> map (\<lambda>x. (rr_task_id x, rr_success x)) (task_results (snd (on_success d t0 t1 job out))) =
                map (\<lambda>x. (rr_task_id x, rr_success x)) (task_results d) @ [(id_of (job_data job), False)])
       \<and> (outages d = False # True # False # True # rest \<longrightarrow>
            fst (on_success d t0 t1 job out) = Inl QueryFailed
            \<and> map_option row_status (find_task (snd (on_success d t0 t1 job out)) (id_of (job_data job)))
                = Some Failed
            \<and> task_results (snd (on_success d t0 t1 job out)) = task_results d)"
proof (intro conjI impI)
  let ?i = "id_of (job_data job)"
  let ?adc = "no_data\<lparr>ad_completedAt := Some t1, ad_result := Some out\<rparr>"
  let ?rc = "set_columns t1 Completed ?adc r"
  have pc: "0 \<le> row_progress ?rc" "row_progress ?rc \<le> 100"
    using assms(2,3) by (simp_all add: row_progress_set_columns no_data_def)
  {
    assume o: "True \<notin> set (outages d)"
    from on_error_ok [OF o assms, of e]
    obtain d' where "on_error d t0 t1 job e = (Inl e, d')"
      and "find_task d' ?i = Some (set_columns t1 Failed
                  (no_data\<lparr>ad_failedAt := Some t1, ad_error := Some (message e)\<rparr>) r)"
      and "task_results d' = task_results d @
          [\<lparr>rr_task_id = ?i, rr_success = False, rr_data = None,
            rr_error = Some (message e), rr_duration = t1 - t0,
            rr_attempts = int (attemptsMade job) + 1, rr_created_at = t1\<rparr>]" by blast
    then show "fst (on_error d t0 t1 job e) = Inl e"
      and "map_option row_status (find_task (snd (on_error d t0 t1 job e)) ?i) = Some Failed"
      and "map (\<lambda>x. (rr_task_id x, rr_success x)) (task_results (snd (on_error d t0 t1 job e))) =
                map (\<lambda>x. (rr_task_id x, rr_success x)) (task_results d) @ [(?i, False)]"
      by (simp_all add: set_columns_fields)
    from on_success_ok [OF o assms, of out]
    obtain d'' where "on_success d t0 t1 job out =
        (Inr \<lparr>taskId = ?i, success = True, res_data = Some out, res_error = None,
              duration = t1 - t0, res_attempts = int (attemptsMade job) + 1\<rparr>, d'')"
      and "find_task d'' ?i = Some ?rc"
      and "task_results d'' = task_results d @
          [\<lparr>rr_task_id = ?i, rr_success = True, rr_data = Some out,
            rr_error = None, rr_duration = t1 - t0,
            rr_attempts = int (attemptsMade job) + 1, rr_created_at = t1\<rparr>]" by blast
    then show "fst (on_success d t0 t1 job out) =
              Inr \<lparr>taskId = ?i, success = True, res_data = Some out,
                   res_error = None, duration = t1 - t0,
                   res_attempts = int (attemptsMade job) + 1\<rparr>"
      and "map_option row_status (find_task (snd (on_success d t0 t1 job out)) ?i) = Some Completed"
      and "map (\<lambda>x. (rr_task_id x, rr_success x)) (task_results (snd (on_success d t0 t1 job out))) =
                map (\<lambda>x. (rr_task_id x, rr_success x)) (task_results d) @ [(?i, True)]"
      by (simp_all add: set_columns_fields)
  }
  {
    assume o: "outages d = False # True # rest"
    from on_error_append_fails [OF assms(1-3) o, of t0 t1 e]
    obtain d2 where "on_error d t0 t1 job e = (Inl QueryFailed, d2)"
      and "find_task d2 ?i = Some (set_columns t1 Failed
                  (no_data\<lparr>ad_failedAt := Some t1, ad_error := Some (message e)\<rparr>) r)"
      and "task_results d2 = task_results d" by blast
    then show "fst (on_error d t0 t1 job e) = Inl QueryFailed"
      and "map_option row_status (find_task (snd (on_error d t0 t1 job e)) ?i) = Some Failed"
      and "task_results (snd (on_error d t0 t1 job e)) = task_results d"
      by (simp_all add: set_columns_fields)
  }
  {
    assume o: "outages d = True # rest"
    then show "on_error d t0 t1 job e = (Inl QueryFailed, d\<lparr>outages := rest\<rparr>)"
      by (rule on_error_outage)
  }
  {
    assume o: "outages d = False # True # True # rest"
    from on_success_append_fails [OF assms(1-3) o, of t0 t1 out]
    obtain d2 where s: "on_success d t0 t1 job out = on_error d2 t0 t1 job QueryFailed"
      and f2: "find_task d2 ?i = Some ?rc"
      and t2: "task_results d2 = task_results d" and o2: "outages d2 = True # rest" by blast
    have oe: "on_error d2 t0 t1 job QueryFailed = (Inl QueryFailed, d2\<lparr>outages := rest\<rparr>)"
      using o2 by (rule on_error_outage)
    show "fst (on_success d t0 t1 job out) = Inl QueryFailed" by (simp add: s oe)
    show "map_option row_status (find_task (snd (on_success d t0 t1 job out)) ?i) = Some Completed"
      using f2 by (simp add: s oe find_task_def set_columns_fields)
    show "task_results (snd (on_success d t0 t1 job out)) = task_results d"
      using t2 by (simp add: s oe)
  }
  {
    assume "outages d = False # True # rest \<and> True \<notin> set rest"
    then have o: "outages d = False # True # rest" and n: "True \<notin> set rest" by simp_all
    from on_success_append_fails [OF assms(1-3) o, of t0 t1 out]
    obtain d2 where s: "on_success d t0 t1 job out = on_error d2 t0 t1 job QueryFailed"
      and f2: "find_task d2 ?i = Some ?rc"
      and t2: "task_results d2 = task_results d" and o2: "outages d2 = rest" by blast
    have n2: "True \<notin> set (outages d2)" using n o2 by simp
    from on_error_ok [OF n2 f2 pc assms(4,5), of QueryFailed]
    obtain d' where "on_error d2 t0 t1 job QueryFailed = (Inl QueryFailed, d')"
      and "find_task d' ?i = Some (set_columns t1 Failed
                  (no_data\<lparr>ad_failedAt := Some t1, ad_error := Some (message QueryFailed)\<rparr>) ?rc)"
      and "task_results d' = task_results d2 @
          [\<lparr>rr_task_id = ?i, rr_success = False, rr_data = None,
            rr_error = Some (message QueryFailed), rr_duration = t1 - t0,
            rr_attempts = int (attemptsMade job) + 1, rr_created_at = t1\<rparr>]" by blast
    then show "fst (on_success d t0 t1 job out) = Inl QueryFailed"
      and "map_option row_status (find_task (snd (on_success d t0 t1 job out)) ?i) = Some Failed"
      and "map (\<lambda>x. (rr_task_id x, rr_success x)) (task_results (snd (on_success d t0 t1 job out))) =
                map (\<lambda>x. (rr_task_id x, rr_success x)) (task_results d) @ [(?i, False)]"
      using t2 by (simp_all add: s set_columns_fields)
  }
  {
    assume o: "outages d = False # True # False # True # rest"
    from on_success_append_fails [OF assms(1-3) o, of t0 t1 out]
    obtain d2 where s: "on_success d t0 t1 job out = on_error d2 t0 t1 job QueryFailed"
      and f2: "find_task d2 ?i = Some ?rc"
      and t2: "task_results d2 = task_results d" and o2: "outages d2 = False # True # rest"
      by blast
    from on_error_append_fails [OF f2 pc o2, of t0 t1 QueryFailed]
    obtain d3 where "on_error d2 t0 t1 job QueryFailed = (Inl QueryFailed, d3)"
      and "find_task d3 ?i = Some (set_columns t1 Failed
                  (no_data\<lparr>ad_failedAt := Some t1, ad_error := Some (message QueryFailed)\<rparr>) ?rc)"
      and "task_results d3 = task_results d2" by blast
    then show "fst (on_success d t0 t1 job out) = Inl QueryFailed"
      and "map_option row_status (find_task (snd (on_success d t0 t1 job out)) ?i) = Some Failed"
      and "task_results (snd (on_success d t0 t1 job out)) = task_results d"
      using t2 by (simp_all add: s set_columns_fields)
  }
qed

lemma metrics_db_e:
  "find_task (metrics_db\<lparr>outages := os\<rparr>) (id_of (job_data (job_for ''e''))) =
     Some (example_row ''e'' Active (Some 5000) None)"
  by (simp add: find_task_def metrics_db_def example_row_def job_for_def email_task_def id_of_def)

theorem status_update_survives_failed_append_witness:
  "map_option row_progress (find_task (metrics_db\<lparr>outages := [False, True]\<rparr>) ''e'') = Some 0
   \<and> in_int4 (int (attemptsMade (job_for ''e'')) + 1) \<and> in_int4 (7000 - 6000)
   \<and> fst (on_error metrics_db 6000 7000 (job_for ''e'')
            (HandlerError ''SMTP server temporarily unavailable'')) =
        Inl (HandlerError ''SMTP server temporarily unavailable'')
   \<and> map (\<lambda>x. (rr_task_id x, rr_success x)) (task_results (snd (on_error metrics_db
            6000 7000 (job_for ''e'') (HandlerError ''SMTP server temporarily unavailable''))))
        = [(''e'', False)]
   \<and> fst (on_error (metrics_db\<lparr>outages := [False, True]\<rparr>) 6000 7000 (job_for ''e'')
            (HandlerError ''SMTP server temporarily unavailable'')) = Inl QueryFailed
   \<and> map_option row_status (find_task (snd (on_error (metrics_db\<lparr>outages := [False, True]\<rparr>) 6000 7000
            (job_for ''e'') (HandlerError ''SMTP server temporarily unavailable''))) ''e'') = Some Failed
   \<and> task_results (snd (on_error (metrics_db\<lparr>outages := [False, True]\<rparr>) 6000 7000 (job_for ''e'')
            (HandlerError ''SMTP server temporarily unavailable''))) = []
   \<and> on_error (metrics_db\<lparr>outages := [True]\<rparr>) 6000 7000 (job_for ''e'')
            (HandlerError ''SMTP server temporarily unavailable'') = (Inl QueryFailed, metrics_db)
   \<and> map_option row_status (find_task (snd (on_success metrics_db
            6000 7000 (job_for ''e'') ''{}'')) ''e'') = Some Completed
   \<and> map (\<lambda>x. (rr_task_id x, rr_success x)) (task_results (snd (on_success metrics_db
            6000 7000 (job_for ''e'') ''{}''))) = [(''e'', True)]
   \<and> fst (on_success (metrics_db\<lparr>outages := [False, True, True]\<rparr>) 6000 7000 (job_for ''e'') ''{}'')
        = Inl QueryFailed
   \<and> map_option row_status (find_task (snd (on_success (metrics_db\<lparr>outages := [False, True, True]\<rparr>)
            6000 7000 (job_for ''e'') ''{}'')) ''e'') = Some Completed
   \<and> task_results (snd (on_success (metrics_db\<lparr>outages := [False, True, True]\<rparr>) 6000 7000
            (job_for ''e'') ''{}'')) = []
   \<and> fst (on_success (metrics_db\<lparr>outages := [False, True]\<rparr>) 6000 7000 (job_for ''e'') ''{}'')
        = Inl QueryFailed
   \<and> map_option row_status (find_task (snd (on_success (metrics_db\<lparr>outages := [False, True]\<rparr>)
            6000 7000 (job_for ''e'') ''{}'')) ''e'') = Some Failed
   \<and> map (\<lambda>x. (rr_task_id x, rr_success x)) (task_results (snd (on_success
            (metrics_db\<lparr>outages := [False, True]\<rparr>) 6000 7000 (job_for ''e'') ''{}''))) = [(''e'', False)]
   \<and> map_option row_status (find_task (snd (on_success
            (metrics_db\<lparr>outages := [False, True, False, True]\<rparr>) 6000 7000 (job_for ''e'') ''{}'')) ''e'')
        = Some Failed
   \<and> task_results (snd (on_success (metrics_db\<lparr>outages := [False, True, False, True]\<rparr>) 6000 7000
            (job_for ''e'') ''{}'')) = []"
  using status_update_survives_failed_append [OF metrics_db_e, of 7000 6000 "[]"
      "HandlerError ''SMTP server temporarily unavailable''" "[]" "''{}''"]
    status_update_survives_failed_append [OF metrics_db_e, of 7000 6000 "[False, True]"
      "HandlerError ''SMTP server temporarily unavailable''" "[]" "''{}''"]
    status_update_survives_failed_append [OF metrics_db_e, of 7000 6000 "[True]"
      "HandlerError ''SMTP server temporarily unavailable''" "[]" "''{}''"]
    status_update_survives_failed_append [OF metrics_db_e, of 7000 6000 "[False, True, True]"
      "HandlerError ''SMTP server temporarily unavailable''" "[]" "''{}''"]
    status_update_survives_failed_append [OF metrics_db_e, of 7000 6000 "[False, True, False, True]"
      "HandlerError ''SMTP server temporarily unavailable''" "[]" "''{}''"]
  by (simp add: example_row_def in_int4_def job_for_def)
     (simp add: job_for_def email_task_def id_of_def metrics_db_def find_task_def example_row_def)

text \<open>
  Claim C4 as stated fails. The connection answers the first queries of the handler of
  task \<open>e\<close> and then stops. When the work fails, the attempt ends with the status
  \<open>failed\<close> and no row in \<open>task_results\<close>. When the work succeeds and the connection
  stays down, it ends with the status \<open>completed\<close> and no row; when the connection
  comes back after the failed insert, the status \<open>completed\<close> is overwritten with
  \<open>failed\<close> and the only row is a failure row.
\<close>

theorem atomic_commit_counterexample:
  "map_option row_status (find_task metrics_db ''e'') = Some Active
   \<and> task_results metrics_db = []
   \<and> fst (processEmailNotification (metrics_db\<lparr>outages := [False, False, True]\<rparr>) 6000 7000
          (job_for ''e'') (Some ''SMTP server temporarily unavailable'') ''{}'') = Inl QueryFailed
   \<and> map_option row_status (find_task (snd (processEmailNotification
          (metrics_db\<lparr>outages := [False, False, True]\<rparr>) 6000 7000
          (job_for ''e'') (Some ''SMTP server temporarily unavailable'') ''{}'')) ''e'') = Some Failed
   \<and> task_results (snd (processEmailNotification (metrics_db\<lparr>outages := [False, False, True]\<rparr>)
          6000 7000 (job_for ''e'') (Some ''SMTP server temporarily unavailable'') ''{}'')) = []
   \<and> fst (processEmailNotification (metrics_db\<lparr>outages := [False, False, True, True]\<rparr>) 6000 7000
          (job_for ''e'') None ''{}'') = Inl QueryFailed
   \<and> map_option row_status (find_task (snd (processEmailNotification
          (metrics_db\<lparr>outages := [False, False, True, True]\<rparr>) 6000 7000
          (job_for ''e'') None ''{}'')) ''e'') = Some Completed
   \<and> task_results (snd (processEmailNotification (metrics_db\<lparr>outages := [False, False, True, True]\<rparr>)
          6000 7000 (job_for ''e'') None ''{}'')) = []
   \<and> map_option row_status (find_task (snd (processEmailNotification
          (metrics_db\<lparr>outages := [False, False, True]\<rparr>) 6000 7000
          (job_for ''e'') None ''{}'')) ''e'') = Some Failed
   \<and> map (\<lambda>x. (rr_task_id x, rr_success x)) (task_results (snd (processEmailNotification
          (metrics_db\<lparr>outages := [False, False, True]\<rparr>) 6000 7000 (job_for ''e'') None ''{}'')))
        = [(''e'', False)]"
  by (simp add: processEmailNotification_def process_def updateTaskStatus_def next_query_def
      find_task_def metrics_db_def example_row_def set_columns_def no_data_def simulate_def
      on_error_def on_success_def saveTaskResult_def Let_def id_of_def job_for_def email_task_def
      email_data_def thrown_def in_int4_def)

subsection \<open>A job without retries\<close>

lemma addTask_ok:
  assumes "task_id task = Some tid" and "tid \<noteq> []"
    and "1 \<le> priority task" and "priority task \<le> 10"
    and "in_int4 (case maxRetries task of None \<Rightarrow> 3 | Some m \<Rightarrow> if m = 0 then 3 else m)"
    and "True \<notin> set (outages (sys_db s))" and "find_task (sys_db s) tid = None"
    and "map_of (sys_queues s) (task_type task) = Some q" and "online q"
  shows "\<exists>s' r. addTask cfg s task uuid now = (Inr tid, s')
      \<and> True \<notin> set (outages (sys_db s')) \<and> task_results (sys_db s') = task_results (sys_db s)
      \<and> find_task (sys_db s') tid = Some r \<and> row_progress r = 0 \<and> row_status r =
           (case status task of None \<Rightarrow> Waiting | Some st \<Rightarrow> st)
      \<and> map_of (sys_queues s') (task_type task) =
          Some (q\<lparr>q_waiting := q_waiting q @
            [\<lparr>job_data = task, opts = jobOptions (cfg (task_type task)) task,
              attemptsMade = 0\<rparr>]\<rparr>)"
proof -
  have t: "task\<lparr>task_id := Some tid\<rparr> = task" using assms(1) by simp
  have p: "in_int4 (priority task)" using assms(3,4) by (simp add: in_int4_def)
  note q = next_query_answers [OF assms(6)]
  show ?thesis
    using assms(1-5,7-9) p q(2)
    by (simp add: addTask_def Let_def t createTask_def q(1) queue_add_def
        find_task_def find_append map_of_put_queue_same)
qed

text \<open>
  Claim C5, as amended. Take a task whose \<open>maxRetries\<close> is 0 that \<open>addTask\<close>
  accepts, no query of the database failing from then on (and the duration of the attempt
  fitting an INTEGER). Its job is queued with the number of attempts of the queue's
  configuration, whatever the task's own \<open>maxRetries\<close>, so the job is retried after a
  failed first attempt exactly when that configured number is above 1. A first attempt
  that fails (the handler throws) leaves the stored status \<open>failed\<close> with attempts 1;
  the handler throws, among others, when the simulated work fails.
\<close>

theorem zero_retries_first_failure_is_failed:
  assumes "maxRetries task = Some 0"
    and "task_id task = Some tid" and "tid \<noteq> []"
    and "1 \<le> priority task" and "priority task \<le> 10"
    and "True \<notin> set (outages (sys_db s))" and "find_task (sys_db s) tid = None"
    and "map_of (sys_queues s) (task_type task) = Some q" and "online q"
    and "in_int4 (t1 - t0)"
    and "job = \<lparr>job_data = task, opts = jobOptions (cfg (task_type task)) task, attemptsMade = 0\<rparr>"
    and "s' = snd (addTask cfg s task uuid now)"
  shows "fst (addTask cfg s task uuid now) = Inr tid
    \<and> map_option q_waiting (map_of (sys_queues s') (task_type task)) = Some (q_waiting q @ [job])
    \<and> jo_attempts (opts job) = cfg_maxRetries (cfg (task_type task))
    \<and> (retried job \<longleftrightarrow> 1 < cfg_maxRetries (cfg (task_type task)))
    \<and> (\<forall>e. fst (process (sys_db s') t0 t1 job before steps fails after out) = Inl e \<longrightarrow>
          map_option (\<lambda>r. (status_text (row_status r), row_attempts r))
            (find_task (snd (process (sys_db s') t0 t1 job before steps fails after out)) tid) =
          Some (''failed'', 1))
    \<and> (\<forall>m. before = Inr () \<and> (\<forall>p \<in> set steps. 0 \<le> p \<and> p \<le> 100) \<and> fails = Some m \<longrightarrow>
          fst (process (sys_db s') t0 t1 job before steps fails after out) = Inl (HandlerError m))"
proof -
  have mr: "in_int4 (case maxRetries task of None \<Rightarrow> 3 | Some m \<Rightarrow> if m = 0 then 3 else m)"
    using assms(1) by (simp add: in_int4_def)
  from addTask_ok [OF assms(2-5) mr assms(6-9), of cfg uuid now] assms(12)
  obtain r where a: "addTask cfg s task uuid now = (Inr tid, s')"
    and o: "True \<notin> set (outages (sys_db s'))" and f: "find_task (sys_db s') tid = Some r"
    and p: "row_progress r = 0"
    and q: "map_of (sys_queues s') (task_type task) =
          Some (q\<lparr>q_waiting := q_waiting q @
            [\<lparr>job_data = task, opts = jobOptions (cfg (task_type task)) task,
              attemptsMade = 0\<rparr>]\<rparr>)" by auto
  have i: "id_of (job_data job) = tid" using assms(2,11) by (simp add: id_of_def)
  have f': "find_task (sys_db s') (id_of (job_data job)) = Some r" using f i by simp
  from p have pr: "0 \<le> row_progress r" "row_progress r \<le> 100" by simp_all
  have n: "in_int4 (int (attemptsMade job) + 1)" using assms(11) by (simp add: in_int4_def)
  have am: "int (attemptsMade job) + 1 = 1" using assms(11) by simp
  from process_answered [OF o f' pr n assms(10), of before steps fails after out]
  obtain r' where fr: "find_task (snd (process (sys_db s') t0 t1 job before steps fails after out))
                 tid = Some r'"
    and at: "row_attempts r' = 1"
    and st: "\<forall>e. fst (process (sys_db s') t0 t1 job before steps fails after out) = Inl e \<longrightarrow>
            row_status r' = Failed" unfolding i am by blast
  have c5: "\<forall>e. fst (process (sys_db s') t0 t1 job before steps fails after out) = Inl e \<longrightarrow>
          map_option (\<lambda>r. (status_text (row_status r), row_attempts r))
            (find_task (snd (process (sys_db s') t0 t1 job before steps fails after out)) tid) =
          Some (''failed'', 1)"
    using fr at st by simp
  have c6: "\<forall>m. before = Inr () \<and> (\<forall>p \<in> set steps. 0 \<le> p \<and> p \<le> 100) \<and> fails = Some m \<longrightarrow>
          fst (process (sys_db s') t0 t1 job before steps fails after out) = Inl (HandlerError m)"
    using process_result(2) [OF o f' pr n assms(10)] by blast
  have c1: "fst (addTask cfg s task uuid now) = Inr tid" using a by simp
  have c2: "map_option q_waiting (map_of (sys_queues s') (task_type task)) = Some (q_waiting q @ [job])"
    using q assms(11) by simp
  have c3: "jo_attempts (opts job) = cfg_maxRetries (cfg (task_type task))"
    using assms(11) by (simp add: jobOptions_def)
  have c4: "retried job \<longleftrightarrow> 1 < cfg_maxRetries (cfg (task_type task))"
    using assms(11) by (simp add: retried_def jobOptions_def)
  from c1 c2 c3 c4 c5 c6 show ?thesis by blast
qed

lemma zero_retry_system_eq:
  "addTask default_queues fresh_system (email_task ''z1'' (Some 0)) ''u'' 1000 =
     (Inr ''z1'',
      \<lparr>sys_db = \<lparr>tasks =
          [\<lparr>row_id = ''z1'', row_type = email_notification, row_priority = 5, row_data = email_data,
            row_status = Waiting, created_at = Some 0, updated_at = Some 1000,
            started_at = None, completed_at = None, failed_at = None, row_attempts = 0,
            max_retries = 3, row_progress = 0, row_result = None, row_error = None\<rparr>],
        task_results = [], outages = []\<rparr>,
      sys_queues = put_queue email_notification (new_queue\<lparr>q_waiting := [zero_retry_job]\<rparr>)
        initializeQueues\<rparr>)"
  by (simp add: addTask_def Let_def createTask_def next_query_def fresh_system_def empty_db_def
      find_task_def initializeQueues_def task_types_def queue_add_def new_queue_def
      put_queue_def zero_retry_job_def email_task_def in_int4_def)

text \<open>
  Claim C5 as stated fails. An email task with \<open>maxRetries = 0\<close> is stored with
  max_retries 3 and queued with three attempts; after its first failed attempt the status
  is \<open>failed\<close>, not \<open>dead\<close>, and the job is retried.
\<close>

theorem zero_retries_counterexample:
  "maxRetries (job_data zero_retry_job) = Some 0
   \<and> map_option q_waiting (map_of (sys_queues zero_retry_system) email_notification) =
       Some [zero_retry_job]
   \<and> attempt_record (sys_db zero_retry_system) ''z1'' = Some (''waiting'', 0, 3)
   \<and> fst (processEmailNotification (sys_db zero_retry_system) 2000 3000 zero_retry_job
            (Some ''SMTP server temporarily unavailable'') ''{}'') =
       Inl (HandlerError ''SMTP server temporarily unavailable'')
   \<and> attempt_record (snd (processEmailNotification (sys_db zero_retry_system) 2000 3000 zero_retry_job
            (Some ''SMTP server temporarily unavailable'') ''{}'')) ''z1'' = Some (''failed'', 1, 3)
   \<and> jo_attempts (opts zero_retry_job) = 3
   \<and> retried zero_retry_job"
  by (simp add: zero_retry_system_def zero_retry_system_eq attempt_record_def find_task_def)
     (simp add: put_queue_def initializeQueues_def task_types_def new_queue_def
      zero_retry_job_def email_task_def jobOptions_def
      processEmailNotification_def process_def updateTaskStatus_def next_query_def
      find_task_def set_columns_def no_data_def simulate_def on_error_def saveTaskResult_def
      Let_def id_of_def email_data_def thrown_def in_int4_def retried_def)

theorem zero_retries_first_failure_is_failed_witness:
  "maxRetries (email_task ''z1'' (Some 0)) = Some 0
   \<and> True \<notin> set (outages (sys_db fresh_system)) \<and> find_task (sys_db fresh_system) ''z1'' = None
   \<and> map_of (sys_queues fresh_system) email_notification = Some new_queue \<and> online new_queue
   \<and> in_int4 (3000 - 2000)
   \<and> fst (addTask default_queues fresh_system (email_task ''z1'' (Some 0)) ''u'' 1000) = Inr ''z1''
   \<and> jo_attempts (opts zero_retry_job) = 3
   \<and> retried zero_retry_job
   \<and> fst (process (sys_db zero_retry_system) 2000 3000 zero_retry_job (Inr ()) []
            (Some ''SMTP server temporarily unavailable'') (Inr ()) ''{}'') =
       Inl (HandlerError ''SMTP server temporarily unavailable'')
   \<and> map_option (\<lambda>r. (status_text (row_status r), row_attempts r))
         (find_task (snd (process (sys_db zero_retry_system) 2000 3000 zero_retry_job (Inr ()) []
            (Some ''SMTP server temporarily unavailable'') (Inr ()) ''{}'')) ''z1'') = Some (''failed'', 1)"
  using zero_retries_first_failure_is_failed [of "email_task ''z1'' (Some 0)" "''z1''" fresh_system
      new_queue 3000 2000 zero_retry_job default_queues zero_retry_system "''u''" 1000
      "Inr ()" "[]" "Some ''SMTP server temporarily unavailable''" "Inr ()" "''{}''"]
  by (simp add: zero_retry_system_def zero_retry_job_def)
     (simp add: email_task_def fresh_system_def empty_db_def find_task_def initializeQueues_def
      task_types_def new_queue_def jobOptions_def in_int4_def)

end
